theory Spec2Isabelle
  imports Main "HOL-Library.Word" "HOL-Library.Finite_Map"
begin

section \<open>NanoStream: room management and signaling (src/claude-4-5/signaling.js)\<close>

text \<open>
  A shallow embedding of the room and signaling module. The three module-level maps
  (\<open>rooms\<close>, \<open>socketToRoom\<close>, \<open>messageRateLimits\<close>) form one state record that every
  function takes and returns. A JavaScript \<open>Map\<close> is a finite map; no code of the module
  iterates over the viewers, the reverse map or the rate-limit map, so insertion order is
  not modelled. \<open>Date.now()\<close> is a parameter \<open>now\<close> (milliseconds, a natural number);
  every reading of the clock inside one call sees the same value. The fields of an
  inbound payload (room id, user name, message, target socket id) are strings.
\<close>

subsection \<open>JavaScript strings\<close>

text \<open>
  A JavaScript string is a sequence of 16-bit code units; \<open>length\<close>, \<open>substring\<close> and
  \<open>trim\<close> count and inspect code units.
\<close>

type_synonym jsstring = "16 word list"

definition js :: "string \<Rightarrow> jsstring" where
  "js s = map of_char s"

text \<open>
  \<open>String.prototype.trim\<close> strips WhiteSpace and LineTerminator code points from both
  ends: TAB, LF, VT, FF, CR, SP, NBSP, U+1680, U+2000 to U+200A, U+2028, U+2029, U+202F,
  U+205F, U+3000 and U+FEFF. All of them are single code units.
\<close>

definition is_js_whitespace :: "16 word \<Rightarrow> bool" where
  "is_js_whitespace c =
     (c = 0x0009 \<or> c = 0x000A \<or> c = 0x000B \<or> c = 0x000C \<or> c = 0x000D \<or> c = 0x0020 \<or>
      c = 0x00A0 \<or> c = 0x1680 \<or> (0x2000 \<le> c \<and> c \<le> 0x200A) \<or> c = 0x2028 \<or>
      c = 0x2029 \<or> c = 0x202F \<or> c = 0x205F \<or> c = 0x3000 \<or> c = 0xFEFF)"

definition js_trim :: "jsstring \<Rightarrow> jsstring" where
  "js_trim s = rev (dropWhile is_js_whitespace (rev (dropWhile is_js_whitespace s)))"

text \<open>\<open>s.substring(0, n)\<close>: the first \<open>n\<close> code units, or all of \<open>s\<close> when it is shorter.\<close>

definition js_substring0 :: "nat \<Rightarrow> jsstring \<Rightarrow> jsstring" where
  "js_substring0 n s = take n s"

text \<open>
  \<open>s.replace(/c/g, rep)\<close> for a one-character pattern \<open>c\<close> and a replacement text without
  \<open>$\<close> patterns: every occurrence of \<open>c\<close> becomes \<open>rep\<close>.
\<close>

definition js_replace_all :: "16 word \<Rightarrow> jsstring \<Rightarrow> jsstring \<Rightarrow> jsstring" where
  "js_replace_all c rep s = concat (map (\<lambda>x. if x = c then rep else [x]) s)"

text \<open>Decimal rendering of a non-negative integer, as a template literal prints it.\<close>

fun digit_units :: "nat \<Rightarrow> jsstring" where
  "digit_units n = (if n < 10 then [of_nat (48 + n)]
                    else digit_units (n div 10) @ [of_nat (48 + n mod 10)])"

declare digit_units.simps [simp del]

subsection \<open>Configuration constants\<close>

definition MAX_VIEWERS_PER_ROOM :: nat where
  "MAX_VIEWERS_PER_ROOM = 20"

definition MAX_MESSAGES_PER_ROOM :: nat where
  "MAX_MESSAGES_PER_ROOM = 100"

definition MESSAGE_RATE_LIMIT :: nat where
  "MESSAGE_RATE_LIMIT = 500"

subsection \<open>Room structure and module state\<close>

record streamer_entry =
  socketId :: jsstring
  username :: jsstring
  connectedAt :: nat

record viewer_entry =
  viewerName :: jsstring
  viewerConnectedAt :: nat

record chat_entry =
  senderName :: jsstring
  body :: jsstring
  timestamp :: nat
  entryId :: jsstring

record room_stats =
  totalViewers :: nat
  peakViewers :: nat
  messagesCount :: nat

record room =
  streamer :: "streamer_entry option"
  viewers :: "(jsstring, viewer_entry) fmap"
  messages :: "chat_entry list"
  createdAt :: nat
  stats :: room_stats

record module_state =
  rooms :: "(jsstring, room) fmap"
  socketToRoom :: "(jsstring, jsstring) fmap"
  messageRateLimits :: "(jsstring, nat) fmap"

definition initial_state :: module_state where
  "initial_state = \<lparr>rooms = fmempty, socketToRoom = fmempty, messageRateLimits = fmempty\<rparr>"

text \<open>\<open>Map.prototype.size\<close>.\<close>

definition map_size :: "('k, 'v) fmap \<Rightarrow> nat" where
  "map_size m = fcard (fmdom m)"

subsection \<open>Helper functions\<close>

definition new_room :: "nat \<Rightarrow> room" where
  "new_room now =
     \<lparr>streamer = None, viewers = fmempty, messages = [], createdAt = now,
      stats = \<lparr>totalViewers = 0, peakViewers = 0, messagesCount = 0\<rparr>\<rparr>"

definition createRoom :: "jsstring \<Rightarrow> nat \<Rightarrow> module_state \<Rightarrow> room \<times> module_state" where
  "createRoom roomId now s =
     (new_room now, s\<lparr>rooms := fmupd roomId (new_room now) (rooms s)\<rparr>)"

definition getOrCreateRoom :: "jsstring \<Rightarrow> nat \<Rightarrow> module_state \<Rightarrow> room \<times> module_state" where
  "getOrCreateRoom roomId now s =
     (case fmlookup (rooms s) roomId of
        None \<Rightarrow> createRoom roomId now s
      | Some r \<Rightarrow> (r, s))"

text \<open>
  \<open>addStreamer\<close> returns \<open>{success: false, error, currentStreamer}\<close> or
  \<open>{success: true, role: 'streamer'}\<close>.
\<close>

datatype streamer_result =
  StreamerAccepted
| StreamerRejected jsstring jsstring

definition addStreamer ::
  "jsstring \<Rightarrow> jsstring \<Rightarrow> jsstring \<Rightarrow> nat \<Rightarrow> module_state \<Rightarrow> streamer_result \<times> module_state" where
  "addStreamer roomId sid uname now s =
     (case getOrCreateRoom roomId now s of (r, s1) \<Rightarrow>
        (case streamer r of
           Some cur \<Rightarrow>
             (StreamerRejected (js ''Room already has an active streamer'') (username cur), s1)
         | None \<Rightarrow>
             (StreamerAccepted,
              s1\<lparr>rooms := fmupd roomId
                     (r\<lparr>streamer := Some \<lparr>socketId = sid, username = uname, connectedAt = now\<rparr>\<rparr>)
                     (rooms s1),
                 socketToRoom := fmupd sid roomId (socketToRoom s1)\<rparr>)))"

text \<open>
  \<open>addViewer\<close> returns \<open>{success: false, error, waiting: true}\<close>,
  \<open>{success: false, error}\<close> or \<open>{success: true, role: 'viewer', viewerCount}\<close>.
  The viewer limit is the module constant \<open>MAX_VIEWERS_PER_ROOM\<close>; \<open>addViewerMax\<close> takes it
  as its first argument and \<open>addViewer\<close> fixes it to the constant.
\<close>

datatype viewer_result =
  ViewerAccepted nat
| ViewerWaiting jsstring
| ViewerRejected jsstring

definition addViewerMax ::
  "nat \<Rightarrow> jsstring \<Rightarrow> jsstring \<Rightarrow> jsstring \<Rightarrow> nat \<Rightarrow> module_state \<Rightarrow> viewer_result \<times> module_state" where
  "addViewerMax maxViewers roomId sid uname now s =
     (case getOrCreateRoom roomId now s of (r, s1) \<Rightarrow>
        (case streamer r of
           None \<Rightarrow> (ViewerWaiting (js ''No active stream in this room''), s1)
         | Some cur \<Rightarrow>
             if map_size (viewers r) \<ge> maxViewers
             then (ViewerRejected
                     (js ''Room is full (max '' @ digit_units maxViewers @ js '' viewers)''), s1)
             else
               (let vs = fmupd sid \<lparr>viewerName = uname, viewerConnectedAt = now\<rparr> (viewers r);
                    st = \<lparr>totalViewers = totalViewers (stats r) + 1,
                          peakViewers = max (peakViewers (stats r)) (map_size vs),
                          messagesCount = messagesCount (stats r)\<rparr>
                in (ViewerAccepted (map_size vs),
                    s1\<lparr>rooms := fmupd roomId (r\<lparr>viewers := vs, stats := st\<rparr>) (rooms s1),
                       socketToRoom := fmupd sid roomId (socketToRoom s1)\<rparr>))))"

definition addViewer ::
  "jsstring \<Rightarrow> jsstring \<Rightarrow> jsstring \<Rightarrow> nat \<Rightarrow> module_state \<Rightarrow> viewer_result \<times> module_state" where
  "addViewer = addViewerMax MAX_VIEWERS_PER_ROOM"

text \<open>
  \<open>removeUser\<close> returns \<open>null\<close> (\<open>None\<close>) or \<open>{roomId, role, username, viewerCount}\<close>, where
  \<open>role\<close> and \<open>username\<close> stay \<open>null\<close> when the socket is neither the streamer nor a viewer
  of the room its reverse entry names. The test \<open>!roomId\<close> is also true of the empty
  string. The returned \<open>viewerCount\<close> is read from the room object after the removal,
  whether or not the room was deleted from the registry.
\<close>

datatype role = StreamerRole | ViewerRole

record removed_user =
  removedRoomId :: jsstring
  removedRole :: "role option"
  removedName :: "jsstring option"
  removedViewerCount :: nat

definition remove_from_room :: "jsstring \<Rightarrow> room \<Rightarrow> role option \<times> jsstring option \<times> room" where
  "remove_from_room sid r =
     (if (case streamer r of None \<Rightarrow> False | Some cur \<Rightarrow> socketId cur = sid)
      then (Some StreamerRole, map_option username (streamer r), r\<lparr>streamer := None\<rparr>)
      else (case fmlookup (viewers r) sid of
              Some v \<Rightarrow> (Some ViewerRole, Some (viewerName v), r\<lparr>viewers := fmdrop sid (viewers r)\<rparr>)
            | None \<Rightarrow> (None, None, r)))"

definition room_is_empty :: "room \<Rightarrow> bool" where
  "room_is_empty r = (streamer r = None \<and> map_size (viewers r) = 0)"

definition removeUser :: "jsstring \<Rightarrow> module_state \<Rightarrow> removed_user option \<times> module_state" where
  "removeUser sid s =
     (case fmlookup (socketToRoom s) sid of
        None \<Rightarrow> (None, s)
      | Some roomId \<Rightarrow>
          if roomId = [] then (None, s)
          else
            (case fmlookup (rooms s) roomId of
               None \<Rightarrow> (None, s)
             | Some r \<Rightarrow>
                 (case remove_from_room sid r of (rl, nm, r1) \<Rightarrow>
                    (Some \<lparr>removedRoomId = roomId, removedRole = rl, removedName = nm,
                           removedViewerCount = map_size (viewers r1)\<rparr>,
                     s\<lparr>rooms := (if room_is_empty r1 then fmdrop roomId (rooms s)
                                  else fmupd roomId r1 (rooms s)),
                        socketToRoom := fmdrop sid (socketToRoom s),
                        messageRateLimits := fmdrop sid (messageRateLimits s)\<rparr>))))"

text \<open>
  \<open>addMessage\<close>: room lookup, rate-limit check, stamping of the sender's time, sanitizing
  (trim, first 500 code units, \<open><\<close> to \<open>&lt;\<close>, then \<open>>\<close> to \<open>&gt;\<close>), empty check, append
  and eviction of the oldest message beyond \<open>MAX_MESSAGES_PER_ROOM\<close>.
  \<open>messageRateLimits.get(socketId) || 0\<close> is 0 for a missing entry.
\<close>

datatype message_result =
  MessageAccepted chat_entry
| MessageRejected jsstring

definition sanitize :: "jsstring \<Rightarrow> jsstring" where
  "sanitize message =
     js_replace_all 0x3E (js ''&gt;'')
       (js_replace_all 0x3C (js ''&lt;'') (js_substring0 500 (js_trim message)))"

definition lastMessageTime :: "module_state \<Rightarrow> jsstring \<Rightarrow> nat" where
  "lastMessageTime s sid = (case fmlookup (messageRateLimits s) sid of None \<Rightarrow> 0 | Some t \<Rightarrow> t)"

definition push_bounded :: "chat_entry list \<Rightarrow> chat_entry \<Rightarrow> chat_entry list" where
  "push_bounded ms m =
     (if length (ms @ [m]) > MAX_MESSAGES_PER_ROOM then tl (ms @ [m]) else ms @ [m])"

definition addMessage ::
  "jsstring \<Rightarrow> jsstring \<Rightarrow> jsstring \<Rightarrow> jsstring \<Rightarrow> nat \<Rightarrow> module_state
     \<Rightarrow> message_result \<times> module_state" where
  "addMessage roomId sid uname message now s =
     (case fmlookup (rooms s) roomId of
        None \<Rightarrow> (MessageRejected (js ''Room not found''), s)
      | Some r \<Rightarrow>
          if int now - int (lastMessageTime s sid) < int MESSAGE_RATE_LIMIT
          then (MessageRejected (js ''Sending messages too quickly''), s)
          else
            (let s1 = s\<lparr>messageRateLimits := fmupd sid now (messageRateLimits s)\<rparr>;
                 sanitizedMessage = sanitize message
             in if sanitizedMessage = [] then (MessageRejected (js ''Empty message''), s1)
                else
                  (let messageObj = \<lparr>senderName = uname, body = sanitizedMessage,
                                     timestamp = now,
                                     entryId = sid @ js ''-'' @ digit_units now\<rparr>;
                       r1 = r\<lparr>messages := push_bounded (messages r) messageObj,
                              stats := (stats r)\<lparr>messagesCount := messagesCount (stats r) + 1\<rparr>\<rparr>
                   in (MessageAccepted messageObj,
                       s1\<lparr>rooms := fmupd roomId r1 (rooms s1)\<rparr>))))"

subsection \<open>Socket event handlers\<close>

text \<open>
  What a handler does to the transport is a list of effects, in program order:
  \<open>socket.join(room)\<close>, and emissions \<open>socket.emit\<close> (to the sender),
  \<open>io.to(x).emit\<close> (to the Socket.io room \<open>x\<close>, which is a room id or, since every
  socket is in a room named by its own id, a single socket) and \<open>socket.to(x).emit\<close> (to
  room \<open>x\<close> except the sender). Offers, answers and candidates are opaque payloads.
\<close>

datatype target =
  ToSender
| ToRoom jsstring
| ToRoomExceptSender jsstring

datatype event =
  ErrorEvent jsstring
| RoleAwaitingStream jsstring jsstring
| RoleViewer jsstring jsstring nat
| ChatHistory "chat_entry list"
| ViewerJoined jsstring nat
| ViewerLeft jsstring nat
| ViewerCountUpdate nat
| ChatMessage chat_entry
| SystemChatMessage jsstring nat
| StreamStarted jsstring
| StreamerReady jsstring jsstring
| StreamEnded jsstring
| Offer jsstring jsstring
| Answer jsstring jsstring
| IceCandidate jsstring jsstring
| ViewerReady jsstring

datatype effect =
  JoinChannel jsstring
| Emit target event

text \<open>
  \<open>join-room\<close>. After \<open>addViewer\<close> the handler reads \<open>room.streamer.username\<close> and
  \<open>room.messages\<close> from the room object it fetched before; \<open>addViewer\<close> changes neither.
\<close>

definition on_join_room ::
  "jsstring \<Rightarrow> jsstring \<Rightarrow> jsstring \<Rightarrow> nat \<Rightarrow> module_state \<Rightarrow> effect list \<times> module_state" where
  "on_join_room roomId uname sid now s =
     (if roomId = [] \<or> uname = []
      then ([Emit ToSender (ErrorEvent (js ''Room ID and username are required''))], s)
      else
        (case getOrCreateRoom roomId now s of (r, s1) \<Rightarrow>
           (case streamer r of
              None \<Rightarrow>
                ([JoinChannel roomId,
                  Emit ToSender (RoleAwaitingStream roomId
                    (js ''You can start streaming by clicking '' @ [0x22] @ js ''Go Live'' @ [0x22]))],
                 s1)
            | Some cur \<Rightarrow>
                (case addViewer roomId sid uname now s1 of
                   (ViewerAccepted n, s2) \<Rightarrow>
                     ([JoinChannel roomId,
                       Emit ToSender (RoleViewer roomId (username cur) n),
                       Emit ToSender (ChatHistory (messages r)),
                       Emit (ToRoom (socketId cur)) (ViewerJoined uname n),
                       Emit (ToRoom roomId) (ViewerCountUpdate n),
                       Emit (ToRoom roomId)
                         (SystemChatMessage (uname @ js '' joined the stream'') now)],
                      s2)
                 | (ViewerWaiting e, s2) \<Rightarrow> ([JoinChannel roomId, Emit ToSender (ErrorEvent e)], s2)
                 | (ViewerRejected e, s2) \<Rightarrow> ([JoinChannel roomId, Emit ToSender (ErrorEvent e)], s2)))))"

text \<open>
  \<open>start-stream\<close>. The room exists after a successful \<open>addStreamer\<close>; the lookup that
  would make \<open>room.messages\<close> throw is the \<open>None\<close> branch, where nothing more is emitted.
\<close>

definition on_start_stream ::
  "jsstring \<Rightarrow> jsstring \<Rightarrow> jsstring \<Rightarrow> nat \<Rightarrow> module_state \<Rightarrow> effect list \<times> module_state" where
  "on_start_stream roomId uname sid now s =
     (case addStreamer roomId sid uname now s of
        (StreamerAccepted, s1) \<Rightarrow>
          ([Emit ToSender (StreamStarted roomId),
            Emit (ToRoomExceptSender roomId) (StreamerReady uname sid)] @
           (case fmlookup (rooms s1) roomId of
              None \<Rightarrow> []
            | Some r \<Rightarrow> [Emit ToSender (ChatHistory (messages r))]),
           s1)
      | (StreamerRejected e cur, s1) \<Rightarrow> ([Emit ToSender (ErrorEvent e)], s1))"

definition on_offer ::
  "jsstring \<Rightarrow> jsstring \<Rightarrow> jsstring \<Rightarrow> module_state \<Rightarrow> effect list \<times> module_state" where
  "on_offer offer targetSocketId sid s = ([Emit (ToRoom targetSocketId) (Offer offer sid)], s)"

definition on_answer ::
  "jsstring \<Rightarrow> jsstring \<Rightarrow> jsstring \<Rightarrow> module_state \<Rightarrow> effect list \<times> module_state" where
  "on_answer answer targetSocketId sid s = ([Emit (ToRoom targetSocketId) (Answer answer sid)], s)"

definition on_ice_candidate ::
  "jsstring \<Rightarrow> jsstring \<Rightarrow> jsstring \<Rightarrow> module_state \<Rightarrow> effect list \<times> module_state" where
  "on_ice_candidate candidate targetSocketId sid s =
     ([Emit (ToRoom targetSocketId) (IceCandidate candidate sid)], s)"

definition on_request_stream ::
  "jsstring \<Rightarrow> jsstring \<Rightarrow> module_state \<Rightarrow> effect list \<times> module_state" where
  "on_request_stream roomId sid s =
     (case fmlookup (rooms s) roomId of
        None \<Rightarrow> ([], s)
      | Some r \<Rightarrow>
          (case streamer r of
             None \<Rightarrow> ([], s)
           | Some cur \<Rightarrow> ([Emit (ToRoom (socketId cur)) (ViewerReady sid)], s)))"

definition on_chat_message ::
  "jsstring \<Rightarrow> jsstring \<Rightarrow> jsstring \<Rightarrow> jsstring \<Rightarrow> nat \<Rightarrow> module_state
     \<Rightarrow> effect list \<times> module_state" where
  "on_chat_message roomId uname message sid now s =
     (case addMessage roomId sid uname message now s of
        (MessageAccepted m, s1) \<Rightarrow> ([Emit (ToRoom roomId) (ChatMessage m)], s1)
      | (MessageRejected e, s1) \<Rightarrow> ([Emit ToSender (ErrorEvent e)], s1))"

definition is_streamer_of :: "room \<Rightarrow> jsstring \<Rightarrow> bool" where
  "is_streamer_of r sid = (case streamer r of None \<Rightarrow> False | Some cur \<Rightarrow> socketId cur = sid)"

definition on_stop_stream ::
  "jsstring \<Rightarrow> jsstring \<Rightarrow> module_state \<Rightarrow> effect list \<times> module_state" where
  "on_stop_stream roomId sid s =
     (case fmlookup (rooms s) roomId of
        None \<Rightarrow> ([], s)
      | Some r \<Rightarrow>
          if is_streamer_of r sid
          then ([Emit (ToRoom roomId) (StreamEnded (js ''The stream has ended''))],
                s\<lparr>rooms := fmupd roomId (r\<lparr>streamer := None\<rparr>) (rooms s)\<rparr>)
          else ([], s))"

text \<open>A template literal prints \<open>null\<close> as the text \<open>null\<close>.\<close>

definition name_text :: "jsstring option \<Rightarrow> jsstring" where
  "name_text n = (case n of None \<Rightarrow> js ''null'' | Some u \<Rightarrow> u)"

definition on_disconnect ::
  "jsstring \<Rightarrow> nat \<Rightarrow> module_state \<Rightarrow> effect list \<times> module_state" where
  "on_disconnect sid now s =
     (case removeUser sid s of
        (None, s1) \<Rightarrow> ([], s1)
      | (Some u, s1) \<Rightarrow>
          (case removedRole u of
             Some StreamerRole \<Rightarrow>
               ([Emit (ToRoom (removedRoomId u)) (StreamEnded (js ''The streamer has disconnected'')),
                 Emit (ToRoom (removedRoomId u))
                   (SystemChatMessage (name_text (removedName u) @ js '' (streamer) has left'') now)],
                s1)
           | Some ViewerRole \<Rightarrow>
               ((case fmlookup (rooms s1) (removedRoomId u) of
                   None \<Rightarrow> []
                 | Some r \<Rightarrow>
                     (case streamer r of
                        None \<Rightarrow> []
                      | Some cur \<Rightarrow>
                          [Emit (ToRoom (socketId cur))
                             (ViewerLeft (name_text (removedName u)) (removedViewerCount u))])) @
                [Emit (ToRoom (removedRoomId u)) (ViewerCountUpdate (removedViewerCount u)),
                 Emit (ToRoom (removedRoomId u))
                   (SystemChatMessage (name_text (removedName u) @ js '' left the stream'') now)],
                s1)
           | None \<Rightarrow> ([], s1)))"

text \<open>One inbound event of a socket, and a run of the module over a list of them.\<close>

datatype inbound =
  JoinRoom jsstring jsstring
| StartStream jsstring jsstring
| SendOffer jsstring jsstring
| SendAnswer jsstring jsstring
| SendIceCandidate jsstring jsstring
| RequestStream jsstring
| SendChat jsstring jsstring jsstring
| StopStream jsstring
| Disconnect

fun handle :: "inbound \<Rightarrow> jsstring \<Rightarrow> nat \<Rightarrow> module_state \<Rightarrow> effect list \<times> module_state" where
  "handle (JoinRoom roomId uname) sid now s = on_join_room roomId uname sid now s"
| "handle (StartStream roomId uname) sid now s = on_start_stream roomId uname sid now s"
| "handle (SendOffer offer tgt) sid now s = on_offer offer tgt sid s"
| "handle (SendAnswer answer tgt) sid now s = on_answer answer tgt sid s"
| "handle (SendIceCandidate candidate tgt) sid now s = on_ice_candidate candidate tgt sid s"
| "handle (RequestStream roomId) sid now s = on_request_stream roomId sid s"
| "handle (SendChat roomId uname message) sid now s = on_chat_message roomId uname message sid now s"
| "handle (StopStream roomId) sid now s = on_stop_stream roomId sid s"
| "handle Disconnect sid now s = on_disconnect sid now s"

fun run :: "(jsstring \<times> nat \<times> inbound) list \<Rightarrow> module_state \<Rightarrow> module_state" where
  "run [] s = s"
| "run ((sid, now, ev) # evs) s = run evs (snd (handle ev sid now s))"

subsection \<open>The offer handler of src/server.js\<close>

text \<open>
  The second server of the repository keeps its rooms as objects of a class \<open>Room\<close>;
  \<open>endStream\<close> sets \<open>streamerId\<close> and \<open>streamerSocketId\<close> to \<open>null\<close>. Its \<open>offer\<close> handler
  reads the room named in the request and asks \<open>room.isStreamer(socket.id)\<close>.
\<close>

record server_viewer =
  viewerUserId :: jsstring
  viewerUsername :: jsstring
  joinedAt :: nat

record server_chat =
  chatRoomId :: jsstring
  chatUserId :: jsstring
  chatUsername :: jsstring
  chatMessage :: jsstring
  chatTimestamp :: jsstring

record server_room =
  serverRoomId :: jsstring
  streamerId :: "jsstring option"
  streamerSocketId :: "jsstring option"
  streamerUsername :: jsstring
  streamTitle :: jsstring
  serverViewers :: "(jsstring, server_viewer) fmap"
  startedAt :: nat
  chatHistory :: "server_chat list"

definition isStreamer :: "server_room \<Rightarrow> jsstring \<Rightarrow> bool" where
  "isStreamer r sid = (streamerSocketId r = Some sid)"

definition server_on_offer ::
  "jsstring \<Rightarrow> jsstring \<Rightarrow> jsstring \<Rightarrow> jsstring \<Rightarrow> (jsstring, server_room) fmap \<Rightarrow> effect list" where
  "server_on_offer roomId offer targetSocketId sid rs =
     (case fmlookup rs roomId of
        None \<Rightarrow> [Emit ToSender (ErrorEvent (js ''Only streamer can send offers''))]
      | Some r \<Rightarrow>
          if isStreamer r sid then [Emit (ToRoom targetSocketId) (Offer offer sid)]
          else [Emit ToSender (ErrorEvent (js ''Only streamer can send offers''))])"

subsection \<open>Sequences of calls\<close>

text \<open>
  The properties below speak of several calls in a row on one room. Each function here
  threads the state through the calls and collects the results in order.
\<close>

fun claim_all ::
  "jsstring \<Rightarrow> (jsstring \<times> jsstring \<times> nat) list \<Rightarrow> module_state
     \<Rightarrow> streamer_result list \<times> module_state" where
  "claim_all roomId [] s = ([], s)"
| "claim_all roomId ((sid, uname, now) # cs) s =
     (case addStreamer roomId sid uname now s of (res, s1) \<Rightarrow>
        (case claim_all roomId cs s1 of (rs, s2) \<Rightarrow> (res # rs, s2)))"

fun admit_all ::
  "nat \<Rightarrow> jsstring \<Rightarrow> (jsstring \<times> jsstring \<times> nat) list \<Rightarrow> module_state
     \<Rightarrow> viewer_result list \<times> module_state" where
  "admit_all maxViewers roomId [] s = ([], s)"
| "admit_all maxViewers roomId ((sid, uname, now) # cs) s =
     (case addViewerMax maxViewers roomId sid uname now s of (res, s1) \<Rightarrow>
        (case admit_all maxViewers roomId cs s1 of (rs, s2) \<Rightarrow> (res # rs, s2)))"

fun append_all ::
  "jsstring \<Rightarrow> (jsstring \<times> jsstring \<times> jsstring \<times> nat) list \<Rightarrow> module_state
     \<Rightarrow> message_result list \<times> module_state" where
  "append_all roomId [] s = ([], s)"
| "append_all roomId ((sid, uname, message, now) # cs) s =
     (case addMessage roomId sid uname message now s of (res, s1) \<Rightarrow>
        (case append_all roomId cs s1 of (rs, s2) \<Rightarrow> (res # rs, s2)))"

text \<open>The streamer slot of a room is taken, by a streamer of the given display name.\<close>

definition slot_occupied_by :: "module_state \<Rightarrow> jsstring \<Rightarrow> jsstring \<Rightarrow> bool" where
  "slot_occupied_by s roomId nm =
     (case fmlookup (rooms s) roomId of
        None \<Rightarrow> False
      | Some r \<Rightarrow> (case streamer r of None \<Rightarrow> False | Some cur \<Rightarrow> username cur = nm))"

text \<open>Observations of one room of the state, and the text of the full-room error.\<close>

definition has_streamer :: "module_state \<Rightarrow> jsstring \<Rightarrow> bool" where
  "has_streamer s roomId =
     (case fmlookup (rooms s) roomId of None \<Rightarrow> False | Some r \<Rightarrow> streamer r \<noteq> None)"

definition viewers_of :: "module_state \<Rightarrow> jsstring \<Rightarrow> (jsstring, viewer_entry) fmap" where
  "viewers_of s roomId =
     (case fmlookup (rooms s) roomId of None \<Rightarrow> fmempty | Some r \<Rightarrow> viewers r)"

definition stats_of :: "module_state \<Rightarrow> jsstring \<Rightarrow> room_stats" where
  "stats_of s roomId =
     (case fmlookup (rooms s) roomId of
        None \<Rightarrow> \<lparr>totalViewers = 0, peakViewers = 0, messagesCount = 0\<rparr>
      | Some r \<Rightarrow> stats r)"

definition room_full_text :: "nat \<Rightarrow> jsstring" where
  "room_full_text maxViewers = js ''Room is full (max '' @ digit_units maxViewers @ js '' viewers)''"

fun is_accepted :: "viewer_result \<Rightarrow> bool" where
  "is_accepted (ViewerAccepted n) = True"
| "is_accepted (ViewerWaiting e) = False"
| "is_accepted (ViewerRejected e) = False"

text \<open>The socket id in the streamer slot of a room, if any.\<close>

definition streamer_socket :: "module_state \<Rightarrow> jsstring \<Rightarrow> jsstring option" where
  "streamer_socket s roomId =
     (case fmlookup (rooms s) roomId of
        None \<Rightarrow> None
      | Some r \<Rightarrow> (case streamer r of None \<Rightarrow> None | Some cur \<Rightarrow> Some (socketId cur)))"


subsection \<open>Chat: observations and test data\<close>

text \<open>
  What the two replacements of \<open>sanitize\<close> do to one code unit, the message object
  \<open>addMessage\<close> builds, the log of a room, the text of the rate-limit error, and the
  rate-limit test of \<open>addMessage\<close> as a predicate of the state.
\<close>

definition escape_unit :: "16 word \<Rightarrow> jsstring" where
  "escape_unit c = (if c = 0x3C then js ''&lt;'' else if c = 0x3E then js ''&gt;'' else [c])"

definition chat_entry_of :: "jsstring \<Rightarrow> jsstring \<Rightarrow> jsstring \<Rightarrow> nat \<Rightarrow> chat_entry" where
  "chat_entry_of sid uname message now =
     \<lparr>senderName = uname, body = sanitize message, timestamp = now,
      entryId = sid @ js ''-'' @ digit_units now\<rparr>"

definition messages_of :: "module_state \<Rightarrow> jsstring \<Rightarrow> chat_entry list" where
  "messages_of s roomId =
     (case fmlookup (rooms s) roomId of None \<Rightarrow> [] | Some r \<Rightarrow> messages r)"

definition too_fast_text :: jsstring where
  "too_fast_text = js ''Sending messages too quickly''"

definition rate_limited :: "module_state \<Rightarrow> jsstring \<Rightarrow> nat \<Rightarrow> bool" where
  "rate_limited s sid now = (int now - int (lastMessageTime s sid) < int MESSAGE_RATE_LIMIT)"

text \<open>A registry with one room \<open>r1\<close>, in which \<open>s1\<close> has started a stream at time 1000.\<close>

definition live_room_state :: module_state where
  "live_room_state = run [(js ''s1'', 1000, StartStream (js ''r1'') (js ''Sam''))] initial_state"

text \<open>
  The accepted messages among a list of results; \<open>n\<close> calls of one connection, 500 ms
  apart; the first chat history among the effects of a handler; and the bound on every
  chat log of a state.
\<close>

fun accepted_entries :: "message_result list \<Rightarrow> chat_entry list" where
  "accepted_entries [] = []"
| "accepted_entries (MessageAccepted e # rs) = e # accepted_entries rs"
| "accepted_entries (MessageRejected x # rs) = accepted_entries rs"

fun spaced_calls ::
  "jsstring \<Rightarrow> jsstring \<Rightarrow> jsstring \<Rightarrow> nat \<Rightarrow> nat \<Rightarrow> (jsstring \<times> jsstring \<times> jsstring \<times> nat) list" where
  "spaced_calls sid uname message t0 0 = []"
| "spaced_calls sid uname message t0 (Suc n) =
     (sid, uname, message, t0) # spaced_calls sid uname message (t0 + 500) n"

fun history_sent :: "effect list \<Rightarrow> chat_entry list option" where
  "history_sent [] = None"
| "history_sent (Emit tgt (ChatHistory h) # es) = Some h"
| "history_sent (e # es) = history_sent es"

definition log_bounded :: "module_state \<Rightarrow> bool" where
  "log_bounded s =
     (\<forall>roomId r. fmlookup (rooms s) roomId = Some r \<longrightarrow>
        length (messages r) \<le> MAX_MESSAGES_PER_ROOM)"



section \<open>Properties\<close>

subsection \<open>Finite maps\<close>

lemma map_size_empty: "map_size fmempty = 0"
  by (simp add: map_size_def)

lemma map_size_upd:
  "map_size (fmupd k v m) = (if fmlookup m k = None then Suc (map_size m) else map_size m)"
  by (auto simp: map_size_def fcard_finsert_if fmdom_notI)

lemma map_size_drop:
  "map_size (fmdrop k m) = (if fmlookup m k = None then map_size m else map_size m - 1)"
  by (auto simp: map_size_def fcard_fminus_fsingleton_if fmdom_notI)

subsection \<open>Streamer claims\<close>

lemma addStreamer_occupied:
  assumes "slot_occupied_by s roomId nm"
  shows "addStreamer roomId sid uname now s =
           (StreamerRejected (js ''Room already has an active streamer'') nm, s)"
  using assms
  by (auto simp: slot_occupied_by_def addStreamer_def getOrCreateRoom_def
           split: option.splits)

lemma addStreamer_leaves_occupied:
  "\<exists>nm. slot_occupied_by (snd (addStreamer roomId sid uname now s)) roomId nm"
  by (auto simp: slot_occupied_by_def addStreamer_def getOrCreateRoom_def createRoom_def
           split: option.splits)

lemma claim_all_occupied:
  "slot_occupied_by s roomId nm \<Longrightarrow>
   claim_all roomId cs s =
     (replicate (length cs) (StreamerRejected (js ''Room already has an active streamer'') nm), s)"
  by (induction cs) (auto simp: addStreamer_occupied)

lemma claim_all_at_most_one:
  "length (filter (\<lambda>res. res = StreamerAccepted) (fst (claim_all roomId cs s))) \<le> 1"
proof (cases cs)
  case Nil
  then show ?thesis by simp
next
  case (Cons c cs')
  obtain sid uname now where c: "c = (sid, uname, now)" by (cases c)
  obtain res s1 where a: "addStreamer roomId sid uname now s = (res, s1)" by force
  from addStreamer_leaves_occupied [of roomId sid uname now s] a
  obtain nm where occ: "slot_occupied_by s1 roomId nm" by auto
  show ?thesis using Cons c a claim_all_occupied [OF occ, of cs'] by simp
qed

lemma stop_stream_frees_slot:
  assumes "streamer_socket s roomId = Some sid0"
  shows "fst (addStreamer roomId sid uname now (snd (on_stop_stream roomId sid0 s))) =
           StreamerAccepted"
  using assms
  by (auto simp: streamer_socket_def on_stop_stream_def is_streamer_of_def addStreamer_def
        getOrCreateRoom_def split: option.splits)

lemma disconnect_frees_slot:
  assumes "streamer_socket s roomId = Some sid0" "fmlookup (socketToRoom s) sid0 = Some roomId"
    "roomId \<noteq> []"
  shows "fst (addStreamer roomId sid uname now (snd (on_disconnect sid0 later s))) =
           StreamerAccepted"
proof -
  obtain r cur where r: "fmlookup (rooms s) roomId = Some r" and c: "streamer r = Some cur"
    and i: "socketId cur = sid0"
    using assms(1) by (auto simp: streamer_socket_def split: option.splits)
  have rf: "remove_from_room sid0 r = (Some StreamerRole, Some (username cur), r\<lparr>streamer := None\<rparr>)"
    using c i by (simp add: remove_from_room_def)
  have "rooms (snd (on_disconnect sid0 later s)) =
          (if room_is_empty (r\<lparr>streamer := None\<rparr>) then fmdrop roomId (rooms s)
           else fmupd roomId (r\<lparr>streamer := None\<rparr>) (rooms s))"
    using assms(2,3) r rf by (simp add: on_disconnect_def removeUser_def)
  then show ?thesis
    by (simp add: addStreamer_def getOrCreateRoom_def createRoom_def new_room_def)
qed

text \<open>
  C2. While the streamer slot of a room is taken, every further \<open>addStreamer\<close> on that
  room is rejected with the error text "Room already has an active streamer" and the
  display name of the current streamer, and leaves the state as it was; so in any
  sequence of claims on one room, from any state, at most one is accepted. Once the
  streamer has stopped the stream or has disconnected, the next claim is accepted.
\<close>

theorem claimStreamer_conflict_while_occupied:
  "(slot_occupied_by s roomId nm \<longrightarrow>
      claim_all roomId cs s =
        (replicate (length cs)
           (StreamerRejected (js ''Room already has an active streamer'') nm), s)) \<and>
   length (filter (\<lambda>res. res = StreamerAccepted) (fst (claim_all roomId cs s))) \<le> 1 \<and>
   (streamer_socket s roomId = Some sid0 \<longrightarrow>
      fst (addStreamer roomId sid uname now (snd (on_stop_stream roomId sid0 s))) =
        StreamerAccepted) \<and>
   (streamer_socket s roomId = Some sid0 \<and> fmlookup (socketToRoom s) sid0 = Some roomId \<and>
    roomId \<noteq> [] \<longrightarrow>
      fst (addStreamer roomId sid uname now (snd (on_disconnect sid0 later s))) =
        StreamerAccepted)"
  using claim_all_occupied claim_all_at_most_one stop_stream_frees_slot disconnect_frees_slot
  by blast

theorem claimStreamer_conflict_while_occupied_witness:
  "slot_occupied_by
     (snd (addStreamer (js ''r1'') (js ''s1'') (js ''Sam'') 1000 initial_state))
     (js ''r1'') (js ''Sam'') \<and>
   claim_all (js ''r1'') [(js ''v1'', js ''Vic'', 2000), (js ''v2'', js ''Wu'', 3000)]
     (snd (addStreamer (js ''r1'') (js ''s1'') (js ''Sam'') 1000 initial_state)) =
     ([StreamerRejected (js ''Room already has an active streamer'') (js ''Sam''),
       StreamerRejected (js ''Room already has an active streamer'') (js ''Sam'')],
      snd (addStreamer (js ''r1'') (js ''s1'') (js ''Sam'') 1000 initial_state)) \<and>
   fst (claim_all (js ''r1'') [(js ''s1'', js ''Sam'', 1000), (js ''v1'', js ''Vic'', 2000)]
          initial_state) =
     [StreamerAccepted,
      StreamerRejected (js ''Room already has an active streamer'') (js ''Sam'')] \<and>
   streamer_socket (snd (addStreamer (js ''r1'') (js ''s1'') (js ''Sam'') 1000 initial_state))
     (js ''r1'') = Some (js ''s1'') \<and>
   fmlookup (socketToRoom (snd (addStreamer (js ''r1'') (js ''s1'') (js ''Sam'') 1000 initial_state)))
     (js ''s1'') = Some (js ''r1'') \<and>
   js ''r1'' \<noteq> [] \<and>
   fst (addStreamer (js ''r1'') (js ''v1'') (js ''Vic'') 5000
          (snd (on_stop_stream (js ''r1'') (js ''s1'')
                  (snd (addStreamer (js ''r1'') (js ''s1'') (js ''Sam'') 1000 initial_state))))) =
     StreamerAccepted \<and>
   fst (addStreamer (js ''r1'') (js ''v1'') (js ''Vic'') 5000
          (snd (on_disconnect (js ''s1'') 4000
                  (snd (addStreamer (js ''r1'') (js ''s1'') (js ''Sam'') 1000 initial_state))))) =
     StreamerAccepted"
proof -
  let ?s = "snd (addStreamer (js ''r1'') (js ''s1'') (js ''Sam'') 1000 initial_state)"
  note t = claimStreamer_conflict_while_occupied
             [of ?s "js ''r1''" "js ''Sam''"
                 "[(js ''v1'', js ''Vic'', 2000), (js ''v2'', js ''Wu'', 3000)]"
                 "js ''s1''" "js ''v1''" "js ''Vic''" 5000 4000]
  have occ: "slot_occupied_by ?s (js ''r1'') (js ''Sam'')"
    by (simp add: slot_occupied_by_def addStreamer_def getOrCreateRoom_def createRoom_def
          new_room_def initial_state_def)
  have ss: "streamer_socket ?s (js ''r1'') = Some (js ''s1'')"
    by (simp add: streamer_socket_def addStreamer_def getOrCreateRoom_def createRoom_def
          new_room_def initial_state_def)
  have rev: "fmlookup (socketToRoom ?s) (js ''s1'') = Some (js ''r1'')"
    by (simp add: addStreamer_def getOrCreateRoom_def createRoom_def new_room_def
          initial_state_def)
  have ne: "js ''r1'' \<noteq> []" by (simp add: js_def)
  have c2: "claim_all (js ''r1'') [(js ''v1'', js ''Vic'', 2000), (js ''v2'', js ''Wu'', 3000)] ?s =
          ([StreamerRejected (js ''Room already has an active streamer'') (js ''Sam''),
            StreamerRejected (js ''Room already has an active streamer'') (js ''Sam'')], ?s)"
    using t occ by (simp add: numeral_2_eq_2 del: claim_all.simps)
  have c3: "fst (claim_all (js ''r1'')
                   [(js ''s1'', js ''Sam'', 1000), (js ''v1'', js ''Vic'', 2000)] initial_state) =
          [StreamerAccepted,
           StreamerRejected (js ''Room already has an active streamer'') (js ''Sam'')]"
    by (simp add: addStreamer_def getOrCreateRoom_def createRoom_def new_room_def
          initial_state_def)
  have c7: "fst (addStreamer (js ''r1'') (js ''v1'') (js ''Vic'') 5000
          (snd (on_stop_stream (js ''r1'') (js ''s1'') ?s))) = StreamerAccepted"
    using t ss by blast
  have c8: "fst (addStreamer (js ''r1'') (js ''v1'') (js ''Vic'') 5000
          (snd (on_disconnect (js ''s1'') 4000 ?s))) = StreamerAccepted"
    using t ss rev ne by blast
  show ?thesis
    by (intro conjI) (fact occ c2 c3 ss rev ne c7 c8)+
qed

subsection \<open>Viewer admission\<close>

lemma addViewerMax_waiting:
  "\<not> has_streamer s roomId \<Longrightarrow>
   fst (addViewerMax mx roomId sid uname now s) = ViewerWaiting (js ''No active stream in this room'')"
  by (auto simp: has_streamer_def addViewerMax_def getOrCreateRoom_def createRoom_def new_room_def
           split: option.splits)

lemma addViewerMax_full:
  "has_streamer s roomId \<Longrightarrow> mx \<le> map_size (viewers_of s roomId) \<Longrightarrow>
   addViewerMax mx roomId sid uname now s = (ViewerRejected (room_full_text mx), s)"
  by (auto simp: has_streamer_def viewers_of_def addViewerMax_def getOrCreateRoom_def room_full_text_def
           split: option.splits)

lemma addViewerMax_accepted:
  assumes "has_streamer s roomId" "map_size (viewers_of s roomId) < mx"
  shows "fst (addViewerMax mx roomId sid uname now s) =
           ViewerAccepted (map_size (viewers_of (snd (addViewerMax mx roomId sid uname now s)) roomId))"
    and "viewers_of (snd (addViewerMax mx roomId sid uname now s)) roomId =
           fmupd sid \<lparr>viewerName = uname, viewerConnectedAt = now\<rparr> (viewers_of s roomId)"
    and "totalViewers (stats_of (snd (addViewerMax mx roomId sid uname now s)) roomId) =
           totalViewers (stats_of s roomId) + 1"
    and "peakViewers (stats_of (snd (addViewerMax mx roomId sid uname now s)) roomId) =
           max (peakViewers (stats_of s roomId))
               (map_size (viewers_of (snd (addViewerMax mx roomId sid uname now s)) roomId))"
    and "has_streamer (snd (addViewerMax mx roomId sid uname now s)) roomId"
    and "fmlookup (socketToRoom (snd (addViewerMax mx roomId sid uname now s))) sid = Some roomId"
  using assms
  by (auto simp: has_streamer_def viewers_of_def stats_of_def addViewerMax_def getOrCreateRoom_def Let_def
           split: option.splits)

lemma admit_all_full:
  "has_streamer s roomId \<Longrightarrow> mx \<le> map_size (viewers_of s roomId) \<Longrightarrow>
   admit_all mx roomId cs s = (replicate (length cs) (ViewerRejected (room_full_text mx)), s)"
  by (induction cs) (auto simp: addViewerMax_full)

lemma admit_all_counts:
  "has_streamer s roomId \<Longrightarrow> distinct (map fst cs) \<Longrightarrow>
   (\<forall>c \<in> set cs. fmlookup (viewers_of s roomId) (fst c) = None) \<Longrightarrow>
   map_size (viewers_of s roomId) \<le> mx \<Longrightarrow>
   length (filter is_accepted (fst (admit_all mx roomId cs s))) =
     min (length cs) (mx - map_size (viewers_of s roomId)) \<and>
   length (filter (\<lambda>res. res = ViewerRejected (room_full_text mx)) (fst (admit_all mx roomId cs s))) =
     length cs - (mx - map_size (viewers_of s roomId))"
proof (induction cs arbitrary: s)
  case Nil
  then show ?case by simp
next
  case (Cons c cs)
  obtain sid uname now where c: "c = (sid, uname, now)" by (cases c)
  let ?n = "map_size (viewers_of s roomId)"
  show ?case
  proof (cases "?n < mx")
    case False
    with Cons.prems have full: "mx \<le> ?n" by simp
    show ?thesis
      using admit_all_full [OF Cons.prems(1) full, of "c # cs"] full by simp
  next
    case True
    let ?s1 = "snd (addViewerMax mx roomId sid uname now s)"
    note acc = addViewerMax_accepted [OF Cons.prems(1) True, of sid uname now]
    have fresh: "fmlookup (viewers_of s roomId) sid = None"
      using Cons.prems(3) c by simp
    have n1: "map_size (viewers_of ?s1 roomId) = Suc ?n"
      using acc(2) fresh by (simp add: map_size_upd)
    have rest: "\<forall>c' \<in> set cs. fmlookup (viewers_of ?s1 roomId) (fst c') = None"
      using Cons.prems(2,3) c acc(2) by auto
    have d: "distinct (map fst cs)" using Cons.prems(2) by simp
    have le: "map_size (viewers_of ?s1 roomId) \<le> mx" using n1 True by simp
    note ih = Cons.IH [OF acc(5) d rest le]
    have res: "addViewerMax mx roomId sid uname now s = (ViewerAccepted (Suc ?n), ?s1)"
      using acc(1) n1 by (metis prod.collapse)
    show ?thesis
      using ih n1 True res c by (auto split: prod.splits)
  qed
qed


text \<open>
  C6. \<open>addViewer\<close> answers "No active stream in this room" when the room has no
  streamer and "Room is full (max N viewers)" when the viewer map has reached the limit N
  (20 in the module), changing nothing in the second case. Otherwise it inserts the
  connection into the viewers, adds one to \<open>stats.totalViewers\<close>, sets \<open>stats.peakViewers\<close>
  to the maximum of the old peak and the new size, and returns the new size. Hence, on a
  room with a streamer and no viewers, calls for distinct connections are accepted up to
  the limit and every call beyond it is rejected as full: with limit 2, three calls give
  two acceptances and one rejection.
\<close>

theorem admitViewer_contract:
  "(\<not> has_streamer s roomId \<longrightarrow>
      fst (addViewerMax mx roomId sid uname now s) =
        ViewerWaiting (js ''No active stream in this room'')) \<and>
   (has_streamer s roomId \<and> mx \<le> map_size (viewers_of s roomId) \<longrightarrow>
      addViewerMax mx roomId sid uname now s = (ViewerRejected (room_full_text mx), s)) \<and>
   (has_streamer s roomId \<and> map_size (viewers_of s roomId) < mx \<longrightarrow>
      fst (addViewerMax mx roomId sid uname now s) =
        ViewerAccepted (map_size (viewers_of (snd (addViewerMax mx roomId sid uname now s)) roomId)) \<and>
      viewers_of (snd (addViewerMax mx roomId sid uname now s)) roomId =
        fmupd sid \<lparr>viewerName = uname, viewerConnectedAt = now\<rparr> (viewers_of s roomId) \<and>
      totalViewers (stats_of (snd (addViewerMax mx roomId sid uname now s)) roomId) =
        totalViewers (stats_of s roomId) + 1 \<and>
      peakViewers (stats_of (snd (addViewerMax mx roomId sid uname now s)) roomId) =
        max (peakViewers (stats_of s roomId))
            (map_size (viewers_of (snd (addViewerMax mx roomId sid uname now s)) roomId))) \<and>
   (has_streamer s roomId \<and> viewers_of s roomId = fmempty \<and> distinct (map fst cs) \<longrightarrow>
      length (filter is_accepted (fst (admit_all mx roomId cs s))) = min (length cs) mx \<and>
      length (filter (\<lambda>res. res = ViewerRejected (room_full_text mx))
                (fst (admit_all mx roomId cs s))) = length cs - mx) \<and>
   addViewer = addViewerMax 20 \<and>
   room_full_text 20 = js ''Room is full (max 20 viewers)''"
proof (intro conjI impI)
  assume "\<not> has_streamer s roomId"
  then show "fst (addViewerMax mx roomId sid uname now s) =
               ViewerWaiting (js ''No active stream in this room'')"
    by (rule addViewerMax_waiting)
next
  assume "has_streamer s roomId \<and> mx \<le> map_size (viewers_of s roomId)"
  then show "addViewerMax mx roomId sid uname now s = (ViewerRejected (room_full_text mx), s)"
    by (simp add: addViewerMax_full)
next
  assume a: "has_streamer s roomId \<and> map_size (viewers_of s roomId) < mx"
  then have h: "has_streamer s roomId" and l: "map_size (viewers_of s roomId) < mx" by simp_all
  note acc = addViewerMax_accepted [OF h l, of sid uname now]
  show "fst (addViewerMax mx roomId sid uname now s) =
        ViewerAccepted (map_size (viewers_of (snd (addViewerMax mx roomId sid uname now s)) roomId))"
    by (rule acc(1))
  show "viewers_of (snd (addViewerMax mx roomId sid uname now s)) roomId =
        fmupd sid \<lparr>viewerName = uname, viewerConnectedAt = now\<rparr> (viewers_of s roomId)"
    by (rule acc(2))
  show "totalViewers (stats_of (snd (addViewerMax mx roomId sid uname now s)) roomId) =
        totalViewers (stats_of s roomId) + 1"
    by (rule acc(3))
  show "peakViewers (stats_of (snd (addViewerMax mx roomId sid uname now s)) roomId) =
        max (peakViewers (stats_of s roomId))
            (map_size (viewers_of (snd (addViewerMax mx roomId sid uname now s)) roomId))"
    by (rule acc(4))
next
  assume a: "has_streamer s roomId \<and> viewers_of s roomId = fmempty \<and> distinct (map fst cs)"
  then have h: "has_streamer s roomId" and e: "viewers_of s roomId = fmempty"
    and d: "distinct (map fst cs)" by simp_all
  have fresh: "\<forall>c \<in> set cs. fmlookup (viewers_of s roomId) (fst c) = None"
    by (simp add: e)
  have le: "map_size (viewers_of s roomId) \<le> mx" by (simp add: e map_size_empty)
  note cnt = admit_all_counts [OF h d fresh le]
  show "length (filter is_accepted (fst (admit_all mx roomId cs s))) = min (length cs) mx"
    using cnt by (simp add: e map_size_empty)
  show "length (filter (\<lambda>res. res = ViewerRejected (room_full_text mx))
                (fst (admit_all mx roomId cs s))) = length cs - mx"
    using cnt by (simp add: e map_size_empty)
next
  show "addViewer = addViewerMax 20"
    by (simp add: addViewer_def MAX_VIEWERS_PER_ROOM_def)
next
  show "room_full_text 20 = js ''Room is full (max 20 viewers)''"
    by (simp add: room_full_text_def js_def digit_units.simps)
qed

text \<open>Unfolding rules for evaluating the functions on concrete states.\<close>

lemmas eval_defs =
  addStreamer_def addViewerMax_def getOrCreateRoom_def createRoom_def new_room_def
  initial_state_def has_streamer_def viewers_of_def stats_of_def js_def map_size_upd
  map_size_empty

theorem admitViewer_contract_witness:
  "\<not> has_streamer initial_state (js ''r1'') \<and>
   fst (addViewerMax 2 (js ''r1'') (js ''v1'') (js ''Vic'') 2000 initial_state) =
     ViewerWaiting (js ''No active stream in this room'') \<and>
   has_streamer (snd (addStreamer (js ''r1'') (js ''s1'') (js ''Sam'') 1000 initial_state)) (js ''r1'') \<and>
   viewers_of (snd (addStreamer (js ''r1'') (js ''s1'') (js ''Sam'') 1000 initial_state)) (js ''r1'') = fmempty \<and>
   distinct (map fst [(js ''v1'', js ''Vic'', 2000::nat), (js ''v2'', js ''Wu'', 2001), (js ''v3'', js ''Xi'', 2002)]) \<and>
   length (filter is_accepted (fst (admit_all 2 (js ''r1'')
       [(js ''v1'', js ''Vic'', 2000), (js ''v2'', js ''Wu'', 2001), (js ''v3'', js ''Xi'', 2002)]
       (snd (addStreamer (js ''r1'') (js ''s1'') (js ''Sam'') 1000 initial_state))))) = 2 \<and>
   length (filter (\<lambda>res. res = ViewerRejected (room_full_text 2)) (fst (admit_all 2 (js ''r1'')
       [(js ''v1'', js ''Vic'', 2000), (js ''v2'', js ''Wu'', 2001), (js ''v3'', js ''Xi'', 2002)]
       (snd (addStreamer (js ''r1'') (js ''s1'') (js ''Sam'') 1000 initial_state))))) = 1 \<and>
   fst (addViewerMax 2 (js ''r1'') (js ''v1'') (js ''Vic'') 2000
         (snd (addStreamer (js ''r1'') (js ''s1'') (js ''Sam'') 1000 initial_state))) =
     ViewerAccepted 1"
proof -
  let ?s = "snd (addStreamer (js ''r1'') (js ''s1'') (js ''Sam'') 1000 initial_state)"
  let ?cs = "[(js ''v1'', js ''Vic'', 2000::nat), (js ''v2'', js ''Wu'', 2001), (js ''v3'', js ''Xi'', 2002)]"
  have n: "\<not> has_streamer initial_state (js ''r1'')"
    by (simp add: has_streamer_def initial_state_def)
  have h: "has_streamer ?s (js ''r1'')" by (simp add: eval_defs)
  have e: "viewers_of ?s (js ''r1'') = fmempty" by (simp add: eval_defs)
  have d: "distinct (map fst ?cs)" by (simp add: js_def)
  have l: "map_size (viewers_of ?s (js ''r1'')) < 2" by (simp add: e map_size_empty)
  note t0 = admitViewer_contract [of initial_state "js ''r1''" 2 "js ''v1''" "js ''Vic''" 2000 ?cs]
  note t1 = admitViewer_contract [of ?s "js ''r1''" 2 "js ''v1''" "js ''Vic''" 2000 ?cs]
  have w: "fst (addViewerMax 2 (js ''r1'') (js ''v1'') (js ''Vic'') 2000 initial_state) =
             ViewerWaiting (js ''No active stream in this room'')"
    using t0 n by blast
  have c1: "length (filter is_accepted (fst (admit_all 2 (js ''r1'') ?cs ?s))) = min (length ?cs) 2"
    and c2: "length (filter (\<lambda>res. res = ViewerRejected (room_full_text 2))
                (fst (admit_all 2 (js ''r1'') ?cs ?s))) = length ?cs - 2"
    using t1 h e d by blast+
  have a: "fst (addViewerMax 2 (js ''r1'') (js ''v1'') (js ''Vic'') 2000 ?s) =
        ViewerAccepted (map_size (viewers_of (snd (addViewerMax 2 (js ''r1'') (js ''v1'') (js ''Vic'') 2000 ?s)) (js ''r1'')))"
    and v: "viewers_of (snd (addViewerMax 2 (js ''r1'') (js ''v1'') (js ''Vic'') 2000 ?s)) (js ''r1'') =
        fmupd (js ''v1'') \<lparr>viewerName = js ''Vic'', viewerConnectedAt = 2000\<rparr> (viewers_of ?s (js ''r1''))"
    using t1 h l by blast+
  have a1: "fst (addViewerMax 2 (js ''r1'') (js ''v1'') (js ''Vic'') 2000 ?s) = ViewerAccepted 1"
    unfolding a v e by (simp add: map_size_upd map_size_empty)
  have len: "min (length ?cs) 2 = 2" "length ?cs - 2 = 1" by simp_all
  show ?thesis
    using n w h e d c1 c2 a1 unfolding len by (intro conjI)
qed

subsection \<open>Evaluating the handlers\<close>

lemmas handler_defs =
  on_join_room_def on_start_stream_def on_offer_def on_stop_stream_def on_disconnect_def
  on_chat_message_def removeUser_def remove_from_room_def room_is_empty_def is_streamer_of_def
  addViewer_def MAX_VIEWERS_PER_ROOM_def streamer_socket_def map_size_drop

subsection \<open>Offer relay\<close>

text \<open>
  The \<open>offer\<close> handler of src/server.js forwards exactly when the sender's socket is the
  streamer socket of the room named in the request, and answers the sender with an error
  otherwise.
\<close>

lemma server_on_offer_checked:
  "server_on_offer roomId offer tgt sid rs =
     (if (case fmlookup rs roomId of None \<Rightarrow> False | Some r \<Rightarrow> streamerSocketId r = Some sid)
      then [Emit (ToRoom tgt) (Offer offer sid)]
      else [Emit ToSender (ErrorEvent (js ''Only streamer can send offers''))])"
  by (simp add: server_on_offer_def isStreamer_def split: option.splits)

text \<open>
  C1. The \<open>offer\<close> handler of src/claude-4-5/signaling.js makes no such check. With
  \<open>s1\<close> streaming in room \<open>r1\<close> and \<open>v1\<close> admitted as a viewer, an offer sent by the
  viewer \<open>v1\<close> to \<open>v2\<close> is forwarded to \<open>v2\<close>, labelled with \<open>v1\<close> as the streamer socket,
  and no error is sent to \<open>v1\<close>.
\<close>

theorem offer_relayed_for_viewer:
  "streamer_socket
     (run [(js ''s1'', 1000, StartStream (js ''r1'') (js ''Sam'')),
           (js ''v1'', 2000, JoinRoom (js ''r1'') (js ''Vic''))] initial_state)
     (js ''r1'') = Some (js ''s1'') \<and>
   fmlookup (socketToRoom
     (run [(js ''s1'', 1000, StartStream (js ''r1'') (js ''Sam'')),
           (js ''v1'', 2000, JoinRoom (js ''r1'') (js ''Vic''))] initial_state))
     (js ''v1'') = Some (js ''r1'') \<and>
   fst (handle (SendOffer (js ''sdp'') (js ''v2'')) (js ''v1'') 3000
     (run [(js ''s1'', 1000, StartStream (js ''r1'') (js ''Sam'')),
           (js ''v1'', 2000, JoinRoom (js ''r1'') (js ''Vic''))] initial_state)) =
     [Emit (ToRoom (js ''v2'')) (Offer (js ''sdp'') (js ''v1''))]"
  by (simp add: handler_defs eval_defs)

subsection \<open>Stopping a stream\<close>

text \<open>
  What \<open>removeUser\<close> leaves behind when it returns a result: no reverse entry of the
  socket, no registered empty room under the room id it reports, and a streamer slot of
  that room that is not the socket's.
\<close>

lemma removeUser_result:
  assumes "removeUser sid s = (Some u, s1)"
  shows "fmlookup (socketToRoom s1) sid = None"
    and "(case fmlookup (rooms s1) (removedRoomId u) of
            None \<Rightarrow> True | Some r \<Rightarrow> \<not> room_is_empty r)"
    and "streamer_socket s1 (removedRoomId u) \<noteq> Some sid"
  using assms
  by (auto simp: removeUser_def remove_from_room_def streamer_socket_def
           split: option.splits if_splits prod.splits)

text \<open>
  C3. After \<open>start-stream\<close> and \<open>stop-stream\<close> by the same socket in a room without
  viewers, the room is still registered, with an empty streamer slot and no viewers. The
  same socket disconnecting instead removes the room.
\<close>

theorem stop_stream_keeps_empty_room:
  "map_option room_is_empty
     (fmlookup (rooms (run [(js ''s1'', 1000, StartStream (js ''r1'') (js ''Sam'')),
                            (js ''s1'', 2000, StopStream (js ''r1''))] initial_state))
        (js ''r1'')) = Some True \<and>
   fmlookup (rooms (run [(js ''s1'', 1000, StartStream (js ''r1'') (js ''Sam'')),
                         (js ''s1'', 2000, Disconnect)] initial_state))
        (js ''r1'') = None"
  by (simp add: handler_defs eval_defs)

text \<open>
  C5. In the same run, the reverse map still sends the former streamer \<open>s1\<close> to \<open>r1\<close>
  although \<open>s1\<close> is neither the streamer nor a viewer of \<open>r1\<close>. The same socket
  disconnecting instead removes its reverse entry.
\<close>

theorem stop_stream_keeps_reverse_entry:
  "fmlookup (socketToRoom (run [(js ''s1'', 1000, StartStream (js ''r1'') (js ''Sam'')),
                                (js ''s1'', 2000, StopStream (js ''r1''))] initial_state))
     (js ''s1'') = Some (js ''r1'') \<and>
   streamer_socket (run [(js ''s1'', 1000, StartStream (js ''r1'') (js ''Sam'')),
                         (js ''s1'', 2000, StopStream (js ''r1''))] initial_state)
     (js ''r1'') = None \<and>
   fmlookup (viewers_of (run [(js ''s1'', 1000, StartStream (js ''r1'') (js ''Sam'')),
                              (js ''s1'', 2000, StopStream (js ''r1''))] initial_state) (js ''r1''))
     (js ''s1'') = None \<and>
   fmlookup (socketToRoom (run [(js ''s1'', 1000, StartStream (js ''r1'') (js ''Sam'')),
                                (js ''s1'', 2000, Disconnect)] initial_state))
     (js ''s1'') = None"
  by (simp add: handler_defs eval_defs)

subsection \<open>Claiming the streamer slot as a viewer\<close>

text \<open>
  A successful \<open>addStreamer\<close> finds the slot free, puts the connection into it, records
  its reverse entry and leaves the viewers of the room as they were.
\<close>

lemma addStreamer_keeps_viewers:
  assumes "fst (addStreamer roomId sid uname now s) = StreamerAccepted"
  shows "streamer_socket (snd (addStreamer roomId sid uname now s)) roomId = Some sid \<and>
         viewers_of (snd (addStreamer roomId sid uname now s)) roomId = viewers_of s roomId \<and>
         fmlookup (socketToRoom (snd (addStreamer roomId sid uname now s))) sid = Some roomId \<and>
         \<not> has_streamer s roomId"
  using assms
  by (auto simp: addStreamer_def getOrCreateRoom_def createRoom_def new_room_def
        streamer_socket_def viewers_of_def has_streamer_def split: option.splits)

text \<open>
  C4. The claim: a successful claim of the streamer slot evicts the claimant from the
  viewers, so that no connection is streamer and viewer of a room at once. The code at a
  run where it fails: \<open>v1\<close> is a viewer of \<open>r1\<close>, the streamer \<open>s1\<close> disconnects, and
  \<open>v1\<close> starts a stream in \<open>r1\<close>. The claim is accepted without eviction, and \<open>v1\<close> is
  the streamer of \<open>r1\<close> and still an entry of its viewers. When \<open>v1\<close> then disconnects,
  \<open>removeUser\<close> clears only the streamer slot: the viewer entry of \<open>v1\<close> stays in \<open>r1\<close>,
  with no reverse entry left to find it, so the room stays registered.
\<close>

theorem claim_by_viewer_keeps_viewer_entry:
  "streamer_socket
     (run [(js ''s1'', 1000, StartStream (js ''r1'') (js ''Sam'')),
           (js ''v1'', 2000, JoinRoom (js ''r1'') (js ''Vic'')),
           (js ''s1'', 3000, Disconnect),
           (js ''v1'', 4000, StartStream (js ''r1'') (js ''Vic''))] initial_state)
     (js ''r1'') = Some (js ''v1'') \<and>
   fmlookup (viewers_of
     (run [(js ''s1'', 1000, StartStream (js ''r1'') (js ''Sam'')),
           (js ''v1'', 2000, JoinRoom (js ''r1'') (js ''Vic'')),
           (js ''s1'', 3000, Disconnect),
           (js ''v1'', 4000, StartStream (js ''r1'') (js ''Vic''))] initial_state)
     (js ''r1'')) (js ''v1'') = Some \<lparr>viewerName = js ''Vic'', viewerConnectedAt = 2000\<rparr> \<and>
   fmlookup (viewers_of
     (run [(js ''s1'', 1000, StartStream (js ''r1'') (js ''Sam'')),
           (js ''v1'', 2000, JoinRoom (js ''r1'') (js ''Vic'')),
           (js ''s1'', 3000, Disconnect),
           (js ''v1'', 4000, StartStream (js ''r1'') (js ''Vic'')),
           (js ''v1'', 5000, Disconnect)] initial_state)
     (js ''r1'')) (js ''v1'') = Some \<lparr>viewerName = js ''Vic'', viewerConnectedAt = 2000\<rparr> \<and>
   streamer_socket
     (run [(js ''s1'', 1000, StartStream (js ''r1'') (js ''Sam'')),
           (js ''v1'', 2000, JoinRoom (js ''r1'') (js ''Vic'')),
           (js ''s1'', 3000, Disconnect),
           (js ''v1'', 4000, StartStream (js ''r1'') (js ''Vic'')),
           (js ''v1'', 5000, Disconnect)] initial_state)
     (js ''r1'') = None \<and>
   fmlookup (socketToRoom
     (run [(js ''s1'', 1000, StartStream (js ''r1'') (js ''Sam'')),
           (js ''v1'', 2000, JoinRoom (js ''r1'') (js ''Vic'')),
           (js ''s1'', 3000, Disconnect),
           (js ''v1'', 4000, StartStream (js ''r1'') (js ''Vic'')),
           (js ''v1'', 5000, Disconnect)] initial_state)) (js ''v1'') = None"
  by (simp add: handler_defs eval_defs)

subsection \<open>Sanitizing\<close>

lemma replace_twice_escape:
  "js_replace_all 0x3E (js ''&gt;'') (js_replace_all 0x3C (js ''&lt;'') xs) =
     concat (map escape_unit xs)"
  by (induction xs) (simp_all add: js_replace_all_def escape_unit_def js_def)

lemma sanitize_escape: "sanitize m = concat (map escape_unit (take 500 (js_trim m)))"
  by (simp add: sanitize_def js_substring0_def replace_twice_escape)

lemma length_escape_unit: "length (escape_unit c) \<le> 4" "escape_unit c \<noteq> []"
  by (simp_all add: escape_unit_def js_def)

lemma length_concat_escape: "length (concat (map escape_unit xs)) \<le> 4 * length xs"
proof (induction xs)
  case Nil
  then show ?case by simp
next
  case (Cons x xs)
  then show ?case using length_escape_unit(1) [of x] by simp
qed

lemma length_sanitize: "length (sanitize m) \<le> 2000"
proof -
  have "length (sanitize m) \<le> 4 * length (take 500 (js_trim m))"
    unfolding sanitize_escape by (rule length_concat_escape)
  also have "\<dots> \<le> 4 * 500" by simp
  finally show ?thesis by simp
qed

lemma escape_unit_no_markup: "0x3C \<notin> set (escape_unit c)" "0x3E \<notin> set (escape_unit c)"
  by (simp_all add: escape_unit_def js_def)

lemma sanitize_no_markup: "0x3C \<notin> set (sanitize m)" "0x3E \<notin> set (sanitize m)"
  by (auto simp: sanitize_escape escape_unit_no_markup)

lemma sanitize_empty_iff: "sanitize m = [] \<longleftrightarrow> js_trim m = []"
  by (auto simp: sanitize_escape length_escape_unit(2))

lemma rev_dropWhile_split:
  "xs = rev (dropWhile P (rev xs)) @ rev (takeWhile P (rev xs))"
  by (metis rev_append rev_rev_ident takeWhile_dropWhile_id)

lemma js_trim_decompose:
  "\<exists>pre post. m = pre @ js_trim m @ post \<and>
     (\<forall>c \<in> set pre. is_js_whitespace c) \<and> (\<forall>c \<in> set post. is_js_whitespace c)"
proof -
  let ?a = "dropWhile is_js_whitespace m"
  have 1: "m = takeWhile is_js_whitespace m @ ?a" by simp
  have 3: "?a = js_trim m @ rev (takeWhile is_js_whitespace (rev ?a))"
    unfolding js_trim_def by (rule rev_dropWhile_split)
  have "m = takeWhile is_js_whitespace m @ js_trim m @ rev (takeWhile is_js_whitespace (rev ?a))"
    using 1 3 by simp
  moreover have "\<forall>c \<in> set (takeWhile is_js_whitespace m). is_js_whitespace c"
    by (auto dest: set_takeWhileD)
  moreover have "\<forall>c \<in> set (rev (takeWhile is_js_whitespace (rev ?a))). is_js_whitespace c"
    by (auto dest: set_takeWhileD)
  ultimately show ?thesis by blast
qed

lemma js_trim_ends:
  assumes ne: "js_trim m \<noteq> []"
  shows "\<not> is_js_whitespace (hd (js_trim m)) \<and> \<not> is_js_whitespace (last (js_trim m))"
proof -
  let ?a = "dropWhile is_js_whitespace m"
  let ?b = "dropWhile is_js_whitespace (rev ?a)"
  have b: "?b \<noteq> []" using ne by (simp add: js_trim_def)
  have l: "\<not> is_js_whitespace (hd ?b)" using b by (rule hd_dropWhile)
  have last: "last (js_trim m) = hd ?b" using b by (simp add: js_trim_def last_rev)
  have a: "?a \<noteq> []"
    using b by (metis dropWhile.simps(1) rev.simps(1))
  have ha: "\<not> is_js_whitespace (hd ?a)" using a by (rule hd_dropWhile)
  have "?a = js_trim m @ rev (takeWhile is_js_whitespace (rev ?a))"
    unfolding js_trim_def by (rule rev_dropWhile_split)
  then have "hd ?a = hd (js_trim m)" using ne by (metis hd_append2)
  then show ?thesis using ha l last by simp
qed

subsection \<open>Chat append\<close>

lemma addMessage_no_room:
  "fmlookup (rooms s) roomId = None \<Longrightarrow>
   addMessage roomId sid uname message now s = (MessageRejected (js ''Room not found''), s)"
  by (simp add: addMessage_def)

lemma addMessage_too_fast:
  "fmlookup (rooms s) roomId = Some r \<Longrightarrow> rate_limited s sid now \<Longrightarrow>
   addMessage roomId sid uname message now s = (MessageRejected too_fast_text, s)"
  by (simp add: addMessage_def rate_limited_def too_fast_text_def)

lemma addMessage_empty:
  "fmlookup (rooms s) roomId = Some r \<Longrightarrow> \<not> rate_limited s sid now \<Longrightarrow>
   sanitize message = [] \<Longrightarrow>
   addMessage roomId sid uname message now s =
     (MessageRejected (js ''Empty message''),
      s\<lparr>messageRateLimits := fmupd sid now (messageRateLimits s)\<rparr>)"
  by (simp add: addMessage_def rate_limited_def)

lemma addMessage_accepted:
  "fmlookup (rooms s) roomId = Some r \<Longrightarrow> \<not> rate_limited s sid now \<Longrightarrow>
   sanitize message \<noteq> [] \<Longrightarrow>
   addMessage roomId sid uname message now s =
     (MessageAccepted (chat_entry_of sid uname message now),
      s\<lparr>messageRateLimits := fmupd sid now (messageRateLimits s),
        rooms := fmupd roomId
          (r\<lparr>messages := push_bounded (messages r) (chat_entry_of sid uname message now),
             stats := (stats r)\<lparr>messagesCount := messagesCount (stats r) + 1\<rparr>\<rparr>)
          (rooms s)\<rparr>)"
  by (simp add: addMessage_def rate_limited_def chat_entry_of_def Let_def)

lemma error_texts_distinct:
  "js ''Empty message'' \<noteq> too_fast_text" "js ''Room not found'' \<noteq> too_fast_text"
  by (simp_all add: too_fast_text_def js_def)

lemma addMessage_too_fast_iff:
  assumes "fmlookup (rooms s) roomId = Some r"
  shows "(fst (addMessage roomId sid uname message now s) = MessageRejected too_fast_text) =
           rate_limited s sid now"
proof (cases "rate_limited s sid now")
  case True
  then show ?thesis using addMessage_too_fast [OF assms] by simp
next
  case False
  show ?thesis
  proof (cases "sanitize message = []")
    case True
    then show ?thesis
      using addMessage_empty [OF assms False] False error_texts_distinct by simp
  next
    case nonempty: False
    then show ?thesis
      using addMessage_accepted [OF assms False] False by simp
  qed
qed

lemma addMessage_stamps:
  assumes "fmlookup (rooms s) roomId = Some r" "\<not> rate_limited s sid now"
  shows "lastMessageTime (snd (addMessage roomId sid uname message now s)) sid = now"
    and "other \<noteq> sid \<Longrightarrow>
           lastMessageTime (snd (addMessage roomId sid uname message now s)) other =
             lastMessageTime s other"
  using assms
  by (cases "sanitize message = []";
      simp add: addMessage_empty addMessage_accepted lastMessageTime_def)+

lemma addMessage_keeps_rooms:
  "(fmlookup (rooms (snd (addMessage roomId sid uname message now s))) rid = None) =
     (fmlookup (rooms s) rid = None)"
  by (auto simp: addMessage_def Let_def split: option.splits)

lemma last_push_bounded: "last (push_bounded ms m) = m"
proof (cases "length (ms @ [m]) > MAX_MESSAGES_PER_ROOM")
  case True
  then have "tl (ms @ [m]) \<noteq> []"
    by (cases ms) (simp_all add: MAX_MESSAGES_PER_ROOM_def)
  then show ?thesis using True by (simp add: push_bounded_def last_tl)
next
  case False
  then show ?thesis by (simp add: push_bounded_def)
qed

lemma push_bounded_drop:
  "length ms \<le> MAX_MESSAGES_PER_ROOM \<Longrightarrow>
   push_bounded ms m = drop (length (ms @ [m]) - MAX_MESSAGES_PER_ROOM) (ms @ [m])"
proof (cases "length (ms @ [m]) > MAX_MESSAGES_PER_ROOM")
  case True
  assume "length ms \<le> MAX_MESSAGES_PER_ROOM"
  with True have "length (ms @ [m]) - MAX_MESSAGES_PER_ROOM = Suc 0" by simp
  then have "drop (length (ms @ [m]) - MAX_MESSAGES_PER_ROOM) (ms @ [m]) = tl (ms @ [m])"
    by (simp only: drop_Suc drop_0)
  then show ?thesis using True by (simp only: push_bounded_def if_True)
next
  case False
  then show ?thesis by (simp add: push_bounded_def)
qed

lemma length_push_bounded:
  "length ms \<le> MAX_MESSAGES_PER_ROOM \<Longrightarrow> length (push_bounded ms m) \<le> MAX_MESSAGES_PER_ROOM"
  by (simp add: push_bounded_def)

lemmas chat_eval_defs =
  addMessage_def lastMessageTime_def MESSAGE_RATE_LIMIT_def sanitize_def js_trim_def
  js_substring0_def js_replace_all_def is_js_whitespace_def push_bounded_def
  MAX_MESSAGES_PER_ROOM_def chat_entry_of_def too_fast_text_def rate_limited_def
  messages_of_def Let_def

lemma new_room_fields:
  "streamer (new_room now) = None" "viewers (new_room now) = fmempty"
  "messages (new_room now) = []"
  by (simp_all add: new_room_def)

lemma live_room_state_eq:
  "live_room_state =
     \<lparr>rooms = fmupd (js ''r1'')
        ((new_room 1000)\<lparr>streamer :=
           Some \<lparr>socketId = js ''s1'', username = js ''Sam'', connectedAt = 1000\<rparr>\<rparr>) fmempty,
      socketToRoom = fmupd (js ''s1'') (js ''r1'') fmempty,
      messageRateLimits = fmempty\<rparr>"
  by (simp add: live_room_state_def on_start_stream_def addStreamer_def getOrCreateRoom_def
        createRoom_def initial_state_def new_room_fields)

lemma live_room_lookup:
  "fmlookup (rooms live_room_state) (js ''r1'') =
     Some ((new_room 1000)\<lparr>streamer :=
        Some \<lparr>socketId = js ''s1'', username = js ''Sam'', connectedAt = 1000\<rparr>\<rparr>)"
  by (simp add: live_room_state_eq)

lemma live_room_not_limited: "500 \<le> now \<Longrightarrow> \<not> rate_limited live_room_state sid now"
  by (simp add: live_room_state_eq rate_limited_def lastMessageTime_def MESSAGE_RATE_LIMIT_def)

lemma sanitize_examples:
  "sanitize (js ''hello'') = js ''hello''"
  "sanitize (js ''again'') = js ''again''"
  "sanitize (js ''   '') = []"
  "sanitize (js ''  <b>hi</b> '') = js ''&lt;b&gt;hi&lt;/b&gt;''"
  by (simp_all add: sanitize_def js_trim_def js_substring0_def js_replace_all_def
        is_js_whitespace_def js_def)

text \<open>
  The connection \<open>s1\<close> has a message accepted at 10000, sends a blank message at 20000,
  which is rejected as empty, and a third message at 20200: 10200 ms after its last
  accepted message, the third is rejected as too quick.
\<close>

theorem empty_message_starts_cooldown:
  "fst (append_all (js ''r1'')
          [(js ''s1'', js ''Sam'', js ''hello'', 10000),
           (js ''s1'', js ''Sam'', js ''   '', 20000),
           (js ''s1'', js ''Sam'', js ''again'', 20200)]
          (run [(js ''s1'', 1000, StartStream (js ''r1'') (js ''Sam''))] initial_state)) =
     [MessageAccepted (chat_entry_of (js ''s1'') (js ''Sam'') (js ''hello'') 10000),
      MessageRejected (js ''Empty message''),
      MessageRejected (js ''Sending messages too quickly'')]"
  by (simp add: handler_defs eval_defs chat_eval_defs)

text \<open>
  C7, as the code has it. For an existing room, \<open>addMessage\<close> answers "Sending messages
  too quickly" exactly when the time since the connection's recorded time is below 500
  ms; the recorded time is 0 for a connection without an entry, is set by every call that
  passes this test, whether the message is then accepted or rejected as empty, and is
  kept per connection: other connections' times are untouched and the room plays no part.
  A rejected call changes nothing. So an accepted message, a second one less than 500 ms
  later and a third at least 500 ms after the first, in any existing rooms, are accepted,
  rejected as too quick and accepted.
\<close>

theorem chat_rate_limit:
  assumes "fmlookup (rooms s) roomId = Some r"
  shows "(fst (addMessage roomId sid uname message now s) = MessageRejected too_fast_text) =
           (int now - int (lastMessageTime s sid) < 500) \<and>
         (rate_limited s sid now \<longrightarrow> snd (addMessage roomId sid uname message now s) = s) \<and>
         (\<not> rate_limited s sid now \<longrightarrow>
            lastMessageTime (snd (addMessage roomId sid uname message now s)) sid = now \<and>
            (\<forall>other. other \<noteq> sid \<longrightarrow>
               lastMessageTime (snd (addMessage roomId sid uname message now s)) other =
                 lastMessageTime s other)) \<and>
         (\<not> rate_limited s sid now \<and> sanitize message \<noteq> [] \<and> sanitize m3 \<noteq> [] \<and>
          fmlookup (rooms s) room2 \<noteq> None \<and> fmlookup (rooms s) room3 \<noteq> None \<and>
          now \<le> t2 \<and> t2 < now + 500 \<and> now + 500 \<le> t3 \<longrightarrow>
            fst (addMessage roomId sid uname message now s) =
              MessageAccepted (chat_entry_of sid uname message now) \<and>
            addMessage room2 sid u2 m2 t2 (snd (addMessage roomId sid uname message now s)) =
              (MessageRejected too_fast_text, snd (addMessage roomId sid uname message now s)) \<and>
            fst (addMessage room3 sid u3 m3 t3 (snd (addMessage roomId sid uname message now s))) =
              MessageAccepted (chat_entry_of sid u3 m3 t3))"
proof (intro conjI impI)
  show "(fst (addMessage roomId sid uname message now s) = MessageRejected too_fast_text) =
           (int now - int (lastMessageTime s sid) < 500)"
    using addMessage_too_fast_iff [OF assms]
    by (simp add: rate_limited_def MESSAGE_RATE_LIMIT_def)
next
  assume "rate_limited s sid now"
  then show "snd (addMessage roomId sid uname message now s) = s"
    by (simp add: addMessage_too_fast [OF assms])
next
  assume n: "\<not> rate_limited s sid now"
  show "lastMessageTime (snd (addMessage roomId sid uname message now s)) sid = now"
    by (rule addMessage_stamps(1) [OF assms n])
  show "\<forall>other. other \<noteq> sid \<longrightarrow>
          lastMessageTime (snd (addMessage roomId sid uname message now s)) other =
            lastMessageTime s other"
    using addMessage_stamps(2) [OF assms n] by blast
next
  let ?s1 = "snd (addMessage roomId sid uname message now s)"
  assume a: "\<not> rate_limited s sid now \<and> sanitize message \<noteq> [] \<and> sanitize m3 \<noteq> [] \<and>
          fmlookup (rooms s) room2 \<noteq> None \<and> fmlookup (rooms s) room3 \<noteq> None \<and>
          now \<le> t2 \<and> t2 < now + 500 \<and> now + 500 \<le> t3"
  then have n: "\<not> rate_limited s sid now" and m1: "sanitize message \<noteq> []"
    and m3: "sanitize m3 \<noteq> []" and r2: "fmlookup (rooms s) room2 \<noteq> None"
    and r3: "fmlookup (rooms s) room3 \<noteq> None"
    and t: "now \<le> t2" "t2 < now + 500" "now + 500 \<le> t3"
    by simp_all
  show first: "fst (addMessage roomId sid uname message now s) =
              MessageAccepted (chat_entry_of sid uname message now)"
    by (simp add: addMessage_accepted [OF assms n m1])
  have stamp: "lastMessageTime ?s1 sid = now"
    by (rule addMessage_stamps(1) [OF assms n])
  obtain q2 where q2: "fmlookup (rooms ?s1) room2 = Some q2"
    using r2 addMessage_keeps_rooms [of roomId sid uname message now s room2] by auto
  obtain q3 where q3: "fmlookup (rooms ?s1) room3 = Some q3"
    using r3 addMessage_keeps_rooms [of roomId sid uname message now s room3] by auto
  have l2: "rate_limited ?s1 sid t2"
    using t stamp by (simp add: rate_limited_def MESSAGE_RATE_LIMIT_def)
  have l3: "\<not> rate_limited ?s1 sid t3"
    using t stamp by (simp add: rate_limited_def MESSAGE_RATE_LIMIT_def)
  show "addMessage room2 sid u2 m2 t2 ?s1 = (MessageRejected too_fast_text, ?s1)"
    by (rule addMessage_too_fast [OF q2 l2])
  show "fst (addMessage room3 sid u3 m3 t3 ?s1) = MessageAccepted (chat_entry_of sid u3 m3 t3)"
    by (simp add: addMessage_accepted [OF q3 l3 m3])
qed

theorem chat_rate_limit_witness:
  "fmlookup (rooms live_room_state) (js ''r1'') =
     Some ((new_room 1000)\<lparr>streamer :=
        Some \<lparr>socketId = js ''s1'', username = js ''Sam'', connectedAt = 1000\<rparr>\<rparr>) \<and>
   \<not> rate_limited live_room_state (js ''s1'') 10000 \<and>
   fst (addMessage (js ''r1'') (js ''s1'') (js ''Sam'') (js ''hello'') 10000 live_room_state) =
     MessageAccepted (chat_entry_of (js ''s1'') (js ''Sam'') (js ''hello'') 10000) \<and>
   fst (addMessage (js ''r1'') (js ''s1'') (js ''Sam'') (js ''more'') 10499
     (snd (addMessage (js ''r1'') (js ''s1'') (js ''Sam'') (js ''hello'') 10000 live_room_state))) =
     MessageRejected too_fast_text \<and>
   fst (addMessage (js ''r1'') (js ''s1'') (js ''Sam'') (js ''again'') 10500
     (snd (addMessage (js ''r1'') (js ''s1'') (js ''Sam'') (js ''hello'') 10000 live_room_state))) =
     MessageAccepted (chat_entry_of (js ''s1'') (js ''Sam'') (js ''again'') 10500) \<and>
   lastMessageTime
     (snd (addMessage (js ''r1'') (js ''s1'') (js ''Sam'') (js ''hello'') 10000 live_room_state))
     (js ''s1'') = 10000"
proof -
  note t = chat_rate_limit [OF live_room_lookup, of "js ''s1''" "js ''Sam''" "js ''hello''" 10000
             "js ''again''" "js ''r1''" "js ''r1''" 10499 10500 "js ''Sam''" "js ''more''" "js ''Sam''"]
  have n: "\<not> rate_limited live_room_state (js ''s1'') 10000"
    by (simp add: live_room_not_limited)
  have ne: "sanitize (js ''hello'') \<noteq> []" "sanitize (js ''again'') \<noteq> []"
    unfolding sanitize_examples by (simp_all add: js_def)
  have ex: "fmlookup (rooms live_room_state) (js ''r1'') \<noteq> None"
    by (simp add: live_room_lookup)
  have tm: "(10000::nat) \<le> 10499" "(10499::nat) < 10000 + 500" "(10000::nat) + 500 \<le> 10500"
    by simp_all
  from t n ne ex tm live_room_lookup show ?thesis by simp
qed

subsection \<open>Stored message bodies\<close>

lemma sanitize_replicate_lt:
  "sanitize (replicate n 0x3C) = concat (replicate (min n 500) (js ''&lt;''))"
proof -
  have ws: "\<not> is_js_whitespace 0x3C" by (simp add: is_js_whitespace_def)
  have "js_trim (replicate n 0x3C) = replicate n 0x3C"
    using ws by (simp add: js_trim_def)
  then show ?thesis
    by (simp add: sanitize_escape escape_unit_def min.commute)
qed

text \<open>
  A message of 500 characters \<open><\<close> is accepted and stored with a body of 2000 code
  units: truncation comes before escaping.
\<close>

theorem escaped_body_longer_than_500:
  "fst (addMessage (js ''r1'') (js ''s1'') (js ''Sam'') (replicate 500 0x3C) 10000
          live_room_state) =
     MessageAccepted (chat_entry_of (js ''s1'') (js ''Sam'') (replicate 500 0x3C) 10000) \<and>
   length (body (chat_entry_of (js ''s1'') (js ''Sam'') (replicate 500 0x3C) 10000)) = 2000"
proof -
  have n: "\<not> rate_limited live_room_state (js ''s1'') 10000"
    by (simp add: live_room_not_limited)
  have len: "length (sanitize (replicate 500 0x3C)) = 2000"
    by (simp add: sanitize_replicate_lt length_concat sum_list_replicate js_def)
  then have ne: "sanitize (replicate 500 0x3C) \<noteq> []" by auto
  show ?thesis
    using len by (simp add: addMessage_accepted [OF live_room_lookup n ne] chat_entry_of_def)
qed

text \<open>
  C8, as the code has it. A message that passes the room and rate-limit tests and is not
  empty after sanitizing is accepted and stored as the newest entry of the log; its body
  is the input trimmed of surrounding whitespace, cut to its first 500 code units, with
  every \<open><\<close> and \<open>>\<close> of those replaced by \<open>&lt;\<close> and \<open>&gt;\<close>. The body contains neither
  \<open><\<close> nor \<open>>\<close> and has at most 2000 code units (500 before escaping). A message that is
  empty after sanitizing, which is one of whitespace only, is rejected with "Empty
  message" and nothing is appended.
\<close>

theorem chat_body_sanitized:
  assumes "fmlookup (rooms s) roomId = Some r" and "\<not> rate_limited s sid now"
  shows "(sanitize message \<noteq> [] \<longrightarrow>
            fst (addMessage roomId sid uname message now s) =
              MessageAccepted (chat_entry_of sid uname message now) \<and>
            messages_of (snd (addMessage roomId sid uname message now s)) roomId =
              push_bounded (messages r) (chat_entry_of sid uname message now) \<and>
            last (messages_of (snd (addMessage roomId sid uname message now s)) roomId) =
              chat_entry_of sid uname message now) \<and>
         (sanitize message = [] \<longrightarrow>
            fst (addMessage roomId sid uname message now s) =
              MessageRejected (js ''Empty message'') \<and>
            rooms (snd (addMessage roomId sid uname message now s)) = rooms s) \<and>
         body (chat_entry_of sid uname message now) =
           concat (map escape_unit (take 500 (js_trim message))) \<and>
         length (take 500 (js_trim message)) \<le> 500 \<and>
         length (body (chat_entry_of sid uname message now)) \<le> 2000 \<and>
         0x3C \<notin> set (body (chat_entry_of sid uname message now)) \<and>
         0x3E \<notin> set (body (chat_entry_of sid uname message now)) \<and>
         (\<exists>pre post. message = pre @ js_trim message @ post \<and>
            (\<forall>c \<in> set pre. is_js_whitespace c) \<and> (\<forall>c \<in> set post. is_js_whitespace c)) \<and>
         (js_trim message \<noteq> [] \<longrightarrow>
            \<not> is_js_whitespace (hd (js_trim message)) \<and>
            \<not> is_js_whitespace (last (js_trim message))) \<and>
         (sanitize message = []) = (js_trim message = [])"
proof (intro conjI impI)
  assume ne: "sanitize message \<noteq> []"
  note acc = addMessage_accepted [OF assms ne, of uname]
  show "fst (addMessage roomId sid uname message now s) =
          MessageAccepted (chat_entry_of sid uname message now)"
    by (simp add: acc)
  show m: "messages_of (snd (addMessage roomId sid uname message now s)) roomId =
          push_bounded (messages r) (chat_entry_of sid uname message now)"
    by (simp add: acc messages_of_def)
  show "last (messages_of (snd (addMessage roomId sid uname message now s)) roomId) =
          chat_entry_of sid uname message now"
    unfolding m by (rule last_push_bounded)
next
  assume e: "sanitize message = []"
  note rej = addMessage_empty [OF assms e, of uname]
  show "fst (addMessage roomId sid uname message now s) = MessageRejected (js ''Empty message'')"
    by (simp add: rej)
  show "rooms (snd (addMessage roomId sid uname message now s)) = rooms s"
    by (simp add: rej)
next
  show "body (chat_entry_of sid uname message now) =
           concat (map escape_unit (take 500 (js_trim message)))"
    by (simp add: chat_entry_of_def sanitize_escape)
  show "length (take 500 (js_trim message)) \<le> 500" by simp
  show "length (body (chat_entry_of sid uname message now)) \<le> 2000"
    by (simp add: chat_entry_of_def length_sanitize)
  show "0x3C \<notin> set (body (chat_entry_of sid uname message now))"
    by (simp add: chat_entry_of_def sanitize_no_markup)
  show "0x3E \<notin> set (body (chat_entry_of sid uname message now))"
    by (simp add: chat_entry_of_def sanitize_no_markup)
  show "\<exists>pre post. message = pre @ js_trim message @ post \<and>
            (\<forall>c \<in> set pre. is_js_whitespace c) \<and> (\<forall>c \<in> set post. is_js_whitespace c)"
    by (rule js_trim_decompose)
  show "(sanitize message = []) = (js_trim message = [])"
    by (rule sanitize_empty_iff)
next
  assume "js_trim message \<noteq> []"
  then show "\<not> is_js_whitespace (hd (js_trim message))"
    and "\<not> is_js_whitespace (last (js_trim message))"
    using js_trim_ends by blast+
qed

theorem chat_body_sanitized_witness:
  "fmlookup (rooms live_room_state) (js ''r1'') =
     Some ((new_room 1000)\<lparr>streamer :=
        Some \<lparr>socketId = js ''s1'', username = js ''Sam'', connectedAt = 1000\<rparr>\<rparr>) \<and>
   \<not> rate_limited live_room_state (js ''s1'') 10000 \<and>
   sanitize (js ''  <b>hi</b> '') = js ''&lt;b&gt;hi&lt;/b&gt;'' \<and>
   fst (addMessage (js ''r1'') (js ''s1'') (js ''Sam'') (js ''  <b>hi</b> '') 10000 live_room_state) =
     MessageAccepted (chat_entry_of (js ''s1'') (js ''Sam'') (js ''  <b>hi</b> '') 10000) \<and>
   messages_of
     (snd (addMessage (js ''r1'') (js ''s1'') (js ''Sam'') (js ''  <b>hi</b> '') 10000 live_room_state))
     (js ''r1'') = [chat_entry_of (js ''s1'') (js ''Sam'') (js ''  <b>hi</b> '') 10000] \<and>
   body (chat_entry_of (js ''s1'') (js ''Sam'') (js ''  <b>hi</b> '') 10000) =
     js ''&lt;b&gt;hi&lt;/b&gt;'' \<and>
   sanitize (js ''   '') = [] \<and>
   fst (addMessage (js ''r1'') (js ''s1'') (js ''Sam'') (js ''   '') 10000 live_room_state) =
     MessageRejected (js ''Empty message'') \<and>
   rooms (snd (addMessage (js ''r1'') (js ''s1'') (js ''Sam'') (js ''   '') 10000 live_room_state)) =
     rooms live_room_state"
proof -
  have n: "\<not> rate_limited live_room_state (js ''s1'') 10000"
    by (simp add: live_room_not_limited)
  note t1 = chat_body_sanitized [OF live_room_lookup n, of "js ''  <b>hi</b> ''" "js ''Sam''"]
  note t2 = chat_body_sanitized [OF live_room_lookup n, of "js ''   ''" "js ''Sam''"]
  have ne: "sanitize (js ''  <b>hi</b> '') \<noteq> []"
    unfolding sanitize_examples by (simp add: js_def)
  have e: "sanitize (js ''   '') = []" by (simp add: sanitize_examples)
  have p: "push_bounded (messages ((new_room 1000)\<lparr>streamer :=
             Some \<lparr>socketId = js ''s1'', username = js ''Sam'', connectedAt = 1000\<rparr>\<rparr>)) x = [x]" for x
    by (simp add: push_bounded_def new_room_def MAX_MESSAGES_PER_ROOM_def)
  have b: "body (chat_entry_of (js ''s1'') (js ''Sam'') (js ''  <b>hi</b> '') 10000) =
     js ''&lt;b&gt;hi&lt;/b&gt;''"
    by (simp add: chat_entry_of_def sanitize_examples)
  from t1 ne p have a1: "fst (addMessage (js ''r1'') (js ''s1'') (js ''Sam'') (js ''  <b>hi</b> '') 10000
      live_room_state) =
     MessageAccepted (chat_entry_of (js ''s1'') (js ''Sam'') (js ''  <b>hi</b> '') 10000)"
    and a2: "messages_of
     (snd (addMessage (js ''r1'') (js ''s1'') (js ''Sam'') (js ''  <b>hi</b> '') 10000 live_room_state))
     (js ''r1'') = [chat_entry_of (js ''s1'') (js ''Sam'') (js ''  <b>hi</b> '') 10000]"
    by simp_all
  from t2 e have r1: "fst (addMessage (js ''r1'') (js ''s1'') (js ''Sam'') (js ''   '') 10000
      live_room_state) = MessageRejected (js ''Empty message'')"
    and r2: "rooms (snd (addMessage (js ''r1'') (js ''s1'') (js ''Sam'') (js ''   '') 10000
      live_room_state)) = rooms live_room_state"
    by simp_all
  show ?thesis
    by (intro conjI) (fact live_room_lookup n sanitize_examples(4) a1 a2 b e r1 r2)+
qed

subsection \<open>Chat log\<close>

lemma drop_window:
  "drop (length (drop (length xs - n) xs @ ys) - n) (drop (length xs - n) xs @ ys) =
     drop (length (xs @ ys) - n) (xs @ ys)"
  by (cases "length xs \<le> n") (auto simp: add.commute)

lemma addMessage_log:
  assumes "fmlookup (rooms s) roomId = Some r"
  shows "messages_of (snd (addMessage roomId sid uname message now s)) roomId =
           (case fst (addMessage roomId sid uname message now s) of
              MessageAccepted e \<Rightarrow> push_bounded (messages r) e
            | MessageRejected x \<Rightarrow> messages r)"
proof (cases "rate_limited s sid now")
  case True
  then show ?thesis using assms by (simp add: addMessage_too_fast [OF assms] messages_of_def)
next
  case False
  then show ?thesis
    using assms
    by (cases "sanitize message = []")
       (simp_all add: addMessage_empty [OF assms False] addMessage_accepted [OF assms False]
          messages_of_def)
qed

lemma messages_of_lookup: "fmlookup (rooms s) roomId = Some r \<Longrightarrow> messages_of s roomId = messages r"
  by (simp add: messages_of_def)

lemma append_all_log:
  "fmlookup (rooms s) roomId \<noteq> None \<Longrightarrow>
   length (messages_of s roomId) \<le> MAX_MESSAGES_PER_ROOM \<Longrightarrow>
   messages_of (snd (append_all roomId cs s)) roomId =
     drop (length (messages_of s roomId @ accepted_entries (fst (append_all roomId cs s)))
             - MAX_MESSAGES_PER_ROOM)
          (messages_of s roomId @ accepted_entries (fst (append_all roomId cs s)))"
proof (induction cs arbitrary: s)
  case Nil
  then show ?case by simp
next
  case (Cons c cs)
  obtain sid uname message now where c: "c = (sid, uname, message, now)" by (cases c)
  obtain r where r: "fmlookup (rooms s) roomId = Some r" using Cons.prems(1) by auto
  let ?res = "fst (addMessage roomId sid uname message now s)"
  let ?s1 = "snd (addMessage roomId sid uname message now s)"
  have ex1: "fmlookup (rooms ?s1) roomId \<noteq> None"
    using Cons.prems(1) by (simp add: addMessage_keeps_rooms)
  have ms: "messages_of s roomId = messages r" by (rule messages_of_lookup [OF r])
  have len: "length (messages r) \<le> MAX_MESSAGES_PER_ROOM" using Cons.prems(2) ms by simp
  note log1 = addMessage_log [OF r, of sid uname message now]
  show ?case
  proof (cases ?res)
    case (MessageRejected x)
    then have same: "messages_of ?s1 roomId = messages_of s roomId"
      using log1 ms by simp
    have le1: "length (messages_of ?s1 roomId) \<le> MAX_MESSAGES_PER_ROOM"
      using same Cons.prems(2) by simp
    show ?thesis
      using Cons.IH [OF ex1 le1] MessageRejected same c
      by (simp add: split_beta)
  next
    case (MessageAccepted e)
    then have m1: "messages_of ?s1 roomId = push_bounded (messages r) e"
      using log1 by simp
    have le1: "length (messages_of ?s1 roomId) \<le> MAX_MESSAGES_PER_ROOM"
      unfolding m1 by (rule length_push_bounded [OF len])
    have w: "messages_of ?s1 roomId =
               drop (length (messages r @ [e]) - MAX_MESSAGES_PER_ROOM) (messages r @ [e])"
      unfolding m1 by (rule push_bounded_drop [OF len])
    show ?thesis
      using Cons.IH [OF ex1 le1] MessageAccepted c ms
        drop_window [of "messages r @ [e]" MAX_MESSAGES_PER_ROOM
                        "accepted_entries (fst (append_all roomId cs ?s1))"]
      unfolding w by (simp add: split_beta)
  qed
qed

lemma log_bounded_initial: "log_bounded initial_state"
  by (simp add: log_bounded_def initial_state_def)

lemma log_bounded_upd:
  "log_bounded s \<Longrightarrow> length (messages r) \<le> MAX_MESSAGES_PER_ROOM \<Longrightarrow>
   log_bounded (s\<lparr>rooms := fmupd roomId r (rooms s)\<rparr>)"
  by (simp add: log_bounded_def)

lemma log_bounded_drop:
  "log_bounded s \<Longrightarrow> log_bounded (s\<lparr>rooms := fmdrop roomId (rooms s)\<rparr>)"
  by (auto simp: log_bounded_def split: if_splits)

lemma log_bounded_other_fields:
  "log_bounded (s\<lparr>socketToRoom := a\<rparr>) = log_bounded s"
  "log_bounded (s\<lparr>messageRateLimits := b\<rparr>) = log_bounded s"
  by (simp_all add: log_bounded_def)

lemma log_bounded_lookup:
  "log_bounded s \<Longrightarrow> fmlookup (rooms s) roomId = Some r \<Longrightarrow>
   length (messages r) \<le> MAX_MESSAGES_PER_ROOM"
  by (simp add: log_bounded_def)

lemma getOrCreateRoom_bounded:
  assumes "log_bounded s"
  shows "log_bounded (snd (getOrCreateRoom roomId now s))"
    and "length (messages (fst (getOrCreateRoom roomId now s))) \<le> MAX_MESSAGES_PER_ROOM"
  using assms
  by (auto simp: getOrCreateRoom_def createRoom_def new_room_fields log_bounded_def
           split: option.splits)

lemma addStreamer_bounded: "log_bounded s \<Longrightarrow> log_bounded (snd (addStreamer roomId sid uname now s))"
  using getOrCreateRoom_bounded [of s roomId now]
  by (auto simp: addStreamer_def log_bounded_def split: prod.splits option.splits)

lemma addViewerMax_bounded:
  "log_bounded s \<Longrightarrow> log_bounded (snd (addViewerMax mx roomId sid uname now s))"
  using getOrCreateRoom_bounded [of s roomId now]
  by (auto simp: addViewerMax_def log_bounded_def Let_def split: prod.splits option.splits)

lemma remove_from_room_messages:
  "messages (snd (snd (remove_from_room sid r))) = messages r"
  by (simp add: remove_from_room_def split: option.splits)

lemma removeUser_bounded: "log_bounded s \<Longrightarrow> log_bounded (snd (removeUser sid s))"
proof -
  assume b: "log_bounded s"
  show ?thesis
  proof (cases "fmlookup (socketToRoom s) sid")
    case None
    then show ?thesis using b by (simp add: removeUser_def)
  next
    case (Some roomId)
    show ?thesis
    proof (cases "roomId = [] \<or> fmlookup (rooms s) roomId = None")
      case True
      then show ?thesis using b Some by (auto simp: removeUser_def)
    next
      case False
      then obtain r where r: "fmlookup (rooms s) roomId = Some r" and ne: "roomId \<noteq> []" by auto
      obtain rl nm r1 where rf: "remove_from_room sid r = (rl, nm, r1)"
        by (cases "remove_from_room sid r") auto
      have "messages r1 = messages r"
        using remove_from_room_messages [of sid r] rf by simp
      then have l: "length (messages r1) \<le> MAX_MESSAGES_PER_ROOM"
        using log_bounded_lookup [OF b r] by simp
      show ?thesis
        using Some r ne rf log_bounded_upd [OF b l, of roomId] log_bounded_drop [OF b, of roomId]
        by (simp add: removeUser_def log_bounded_def)
    qed
  qed
qed

lemma addMessage_bounded:
  "log_bounded s \<Longrightarrow> log_bounded (snd (addMessage roomId sid uname message now s))"
proof -
  assume b: "log_bounded s"
  show ?thesis
  proof (cases "fmlookup (rooms s) roomId")
    case None
    then show ?thesis using b by (simp add: addMessage_no_room)
  next
    case (Some r)
    note l = log_bounded_lookup [OF b Some]
    show ?thesis
    proof (cases "rate_limited s sid now")
      case True
      then show ?thesis using b by (simp add: addMessage_too_fast [OF Some])
    next
      case False
      show ?thesis
      proof (cases "sanitize message = []")
        case True
        then show ?thesis
          using b by (simp add: addMessage_empty [OF Some False] log_bounded_def)
      next
        case ne: False
        have "length (push_bounded (messages r) (chat_entry_of sid uname message now))
                \<le> MAX_MESSAGES_PER_ROOM"
          by (rule length_push_bounded [OF l])
        then show ?thesis
          using b by (simp add: addMessage_accepted [OF Some False ne] log_bounded_def)
      qed
    qed
  qed
qed

lemma on_stop_stream_bounded: "log_bounded s \<Longrightarrow> log_bounded (snd (on_stop_stream roomId sid s))"
  by (auto simp: on_stop_stream_def log_bounded_def split: option.splits)

lemma on_join_room_bounded:
  "log_bounded s \<Longrightarrow> log_bounded (snd (on_join_room roomId uname sid now s))"
proof -
  assume b: "log_bounded s"
  let ?s1 = "snd (getOrCreateRoom roomId now s)"
  have b1: "log_bounded ?s1" by (rule getOrCreateRoom_bounded(1) [OF b])
  have b2: "log_bounded (snd (addViewer roomId sid uname now ?s1))"
    unfolding addViewer_def by (rule addViewerMax_bounded [OF b1])
  show ?thesis
    using b b1 b2
    by (auto simp: on_join_room_def split: prod.splits option.splits viewer_result.splits)
qed

lemma on_start_stream_bounded:
  "log_bounded s \<Longrightarrow> log_bounded (snd (on_start_stream roomId uname sid now s))"
  using addStreamer_bounded [of s roomId sid uname now]
  by (auto simp: on_start_stream_def split: prod.splits streamer_result.splits)

lemma on_chat_message_bounded:
  "log_bounded s \<Longrightarrow> log_bounded (snd (on_chat_message roomId uname message sid now s))"
  using addMessage_bounded [of s roomId sid uname message now]
  by (auto simp: on_chat_message_def split: prod.splits message_result.splits)

lemma on_disconnect_bounded: "log_bounded s \<Longrightarrow> log_bounded (snd (on_disconnect sid now s))"
  using removeUser_bounded [of s sid]
  by (auto simp: on_disconnect_def split: prod.splits option.splits role.splits)

lemma handle_bounded: "log_bounded s \<Longrightarrow> log_bounded (snd (handle ev sid now s))"
  by (cases ev)
     (simp_all add: on_join_room_bounded on_start_stream_bounded on_chat_message_bounded
        on_stop_stream_bounded on_disconnect_bounded on_offer_def on_answer_def
        on_ice_candidate_def on_request_stream_def split: option.splits)

lemma run_bounded: "log_bounded s \<Longrightarrow> log_bounded (run evs s)"
  by (induction evs arbitrary: s) (auto simp: handle_bounded)


lemma on_join_room_history:
  assumes "roomId \<noteq> []" "uname \<noteq> []" "has_streamer s roomId"
    and "map_size (viewers_of s roomId) < MAX_VIEWERS_PER_ROOM"
  shows "history_sent (fst (on_join_room roomId uname sid now s)) = Some (messages_of s roomId)"
    and "messages_of (snd (on_join_room roomId uname sid now s)) roomId = messages_of s roomId"
  using assms
  by (auto simp: on_join_room_def addViewer_def addViewerMax_def getOrCreateRoom_def
        has_streamer_def viewers_of_def messages_of_def Let_def split: option.splits)

lemma addMessage_keeps_roles:
  "has_streamer (snd (addMessage roomId sid uname message now s)) rid = has_streamer s rid"
  "viewers_of (snd (addMessage roomId sid uname message now s)) rid = viewers_of s rid"
  by (auto simp: addMessage_def has_streamer_def viewers_of_def Let_def split: option.splits)

lemma append_all_keeps_roles:
  "has_streamer (snd (append_all roomId cs s)) rid = has_streamer s rid \<and>
   viewers_of (snd (append_all roomId cs s)) rid = viewers_of s rid"
proof (induction cs arbitrary: s)
  case Nil
  then show ?case by simp
next
  case (Cons c cs)
  obtain sid uname message now where c: "c = (sid, uname, message, now)" by (cases c)
  show ?case
    using Cons.IH [of "snd (addMessage roomId sid uname message now s)"] c
    by (simp add: split_beta addMessage_keeps_roles)
qed

lemma length_spaced_calls: "length (spaced_calls sid uname message t0 n) = n"
  by (induction n arbitrary: t0) simp_all

lemma append_all_spaced:
  "fmlookup (rooms s) roomId \<noteq> None \<Longrightarrow> sanitize message \<noteq> [] \<Longrightarrow>
   lastMessageTime s sid + 500 \<le> t0 \<Longrightarrow>
   fst (append_all roomId (spaced_calls sid uname message t0 n) s) =
     map (\<lambda>c. MessageAccepted (chat_entry_of sid uname message (snd (snd (snd c)))))
       (spaced_calls sid uname message t0 n)"
proof (induction n arbitrary: s t0)
  case 0
  then show ?case by simp
next
  case (Suc n)
  obtain r where r: "fmlookup (rooms s) roomId = Some r" using Suc.prems(1) by auto
  have nl: "\<not> rate_limited s sid t0"
    using Suc.prems(3) by (simp add: rate_limited_def MESSAGE_RATE_LIMIT_def)
  let ?s1 = "snd (addMessage roomId sid uname message t0 s)"
  have ex1: "fmlookup (rooms ?s1) roomId \<noteq> None"
    using Suc.prems(1) by (simp add: addMessage_keeps_rooms)
  have st: "lastMessageTime ?s1 sid + 500 \<le> t0 + 500"
    using addMessage_stamps(1) [OF r nl, of uname message] by simp
  have first: "fst (addMessage roomId sid uname message t0 s) =
                 MessageAccepted (chat_entry_of sid uname message t0)"
    by (simp add: addMessage_accepted [OF r nl Suc.prems(2)])
  show ?case
    using Suc.IH [OF ex1 Suc.prems(2) st] first by (simp add: split_beta)
qed

lemma accepted_entries_map:
  "accepted_entries (map (\<lambda>c. MessageAccepted (f c)) cs) = map f cs"
  by (induction cs) simp_all

lemma live_room_roles:
  "has_streamer live_room_state (js ''r1'')" "viewers_of live_room_state (js ''r1'') = fmempty"
  "messages_of live_room_state (js ''r1'') = []" "lastMessageTime live_room_state sid = 0"
  "fmlookup (rooms live_room_state) (js ''r1'') \<noteq> None"
  by (simp_all add: live_room_state_eq has_streamer_def viewers_of_def messages_of_def
        lastMessageTime_def new_room_fields)

lemma spaced_log:
  assumes "n \<le> 100"
  shows "messages_of
           (snd (append_all (js ''r1'') (spaced_calls (js ''s1'') (js ''Sam'') (js ''hi'') 10000 n)
                   live_room_state)) (js ''r1'') =
         map (\<lambda>c. chat_entry_of (js ''s1'') (js ''Sam'') (js ''hi'') (snd (snd (snd c))))
           (spaced_calls (js ''s1'') (js ''Sam'') (js ''hi'') 10000 n)"
proof -
  have ne: "sanitize (js ''hi'') \<noteq> []"
    by (simp add: sanitize_def js_trim_def js_substring0_def js_replace_all_def
          is_js_whitespace_def js_def)
  have t0: "lastMessageTime live_room_state (js ''s1'') + 500 \<le> 10000"
    by (simp add: live_room_roles)
  have le: "length (messages_of live_room_state (js ''r1'')) \<le> MAX_MESSAGES_PER_ROOM"
    by (simp add: live_room_roles)
  note res = append_all_spaced [OF live_room_roles(5) ne t0, of "js ''Sam''" n]
  show ?thesis
    using assms
    unfolding append_all_log [OF live_room_roles(5) le] res accepted_entries_map
    by (simp add: live_room_roles length_spaced_calls MAX_MESSAGES_PER_ROOM_def)
qed

text \<open>
  With 51 messages stored in room \<open>r1\<close>, a joining viewer is sent a chat history of 51
  messages.
\<close>

theorem join_history_longer_than_50:
  "map_option length
     (history_sent (fst (on_join_room (js ''r1'') (js ''Vic'') (js ''v1'') 90000
        (snd (append_all (js ''r1'') (spaced_calls (js ''s1'') (js ''Sam'') (js ''hi'') 10000 51)
                live_room_state))))) = Some 51"
proof -
  let ?s = "snd (append_all (js ''r1'') (spaced_calls (js ''s1'') (js ''Sam'') (js ''hi'') 10000 51)
                live_room_state)"
  have h: "js ''r1'' \<noteq> []" "js ''Vic'' \<noteq> []" by (simp_all add: js_def)
  have s: "has_streamer ?s (js ''r1'')"
    by (simp add: append_all_keeps_roles live_room_roles)
  have v: "map_size (viewers_of ?s (js ''r1'')) < MAX_VIEWERS_PER_ROOM"
    by (simp add: append_all_keeps_roles live_room_roles map_size_empty MAX_VIEWERS_PER_ROOM_def)
  have "history_sent (fst (on_join_room (js ''r1'') (js ''Vic'') (js ''v1'') 90000 ?s)) =
          Some (messages_of ?s (js ''r1''))"
    by (rule on_join_room_history(1) [OF h s v])
  then show ?thesis
    by (simp add: spaced_log length_spaced_calls)
qed

text \<open>
  C9, as the code has it. In every state the module reaches from the empty registry, every
  chat log holds at most 100 messages. A sequence of appends to a room leaves the last 100
  of the old log followed by the accepted messages, in that order, the oldest evicted
  first: 150 accepted messages on an empty log leave exactly the last 100. A viewer
  admitted by \<open>join-room\<close> is sent the whole stored log of the room, oldest first, which
  can be up to 100 messages, and the join leaves the log as it was.
\<close>

theorem chat_log_bound_and_history:
  "log_bounded (run evs initial_state) \<and>
   (fmlookup (rooms s) roomId \<noteq> None \<and> length (messages_of s roomId) \<le> 100 \<longrightarrow>
      messages_of (snd (append_all roomId cs s)) roomId =
        drop (length (messages_of s roomId @ accepted_entries (fst (append_all roomId cs s))) - 100)
             (messages_of s roomId @ accepted_entries (fst (append_all roomId cs s))) \<and>
      length (messages_of (snd (append_all roomId cs s)) roomId) =
        min 100 (length (messages_of s roomId) +
                 length (accepted_entries (fst (append_all roomId cs s))))) \<and>
   (roomId \<noteq> [] \<and> uname \<noteq> [] \<and> has_streamer s roomId \<and>
    map_size (viewers_of s roomId) < 20 \<longrightarrow>
      history_sent (fst (on_join_room roomId uname sid now s)) = Some (messages_of s roomId) \<and>
      messages_of (snd (on_join_room roomId uname sid now s)) roomId = messages_of s roomId)"
proof (intro conjI impI)
  show "log_bounded (run evs initial_state)"
    by (rule run_bounded [OF log_bounded_initial])
next
  assume a: "fmlookup (rooms s) roomId \<noteq> None \<and> length (messages_of s roomId) \<le> 100"
  then have ex: "fmlookup (rooms s) roomId \<noteq> None"
    and le: "length (messages_of s roomId) \<le> MAX_MESSAGES_PER_ROOM"
    by (simp_all add: MAX_MESSAGES_PER_ROOM_def)
  note w = append_all_log [OF ex le, of cs, unfolded MAX_MESSAGES_PER_ROOM_def]
  show "messages_of (snd (append_all roomId cs s)) roomId =
        drop (length (messages_of s roomId @ accepted_entries (fst (append_all roomId cs s))) - 100)
             (messages_of s roomId @ accepted_entries (fst (append_all roomId cs s)))"
    by (rule w)
  show "length (messages_of (snd (append_all roomId cs s)) roomId) =
        min 100 (length (messages_of s roomId) +
                 length (accepted_entries (fst (append_all roomId cs s))))"
    unfolding w by simp
next
  assume a: "roomId \<noteq> [] \<and> uname \<noteq> [] \<and> has_streamer s roomId \<and>
    map_size (viewers_of s roomId) < 20"
  then have h: "roomId \<noteq> []" "uname \<noteq> []" "has_streamer s roomId"
    "map_size (viewers_of s roomId) < MAX_VIEWERS_PER_ROOM"
    by (simp_all add: MAX_VIEWERS_PER_ROOM_def)
  show "history_sent (fst (on_join_room roomId uname sid now s)) = Some (messages_of s roomId)"
    by (rule on_join_room_history(1) [OF h])
  show "messages_of (snd (on_join_room roomId uname sid now s)) roomId = messages_of s roomId"
    by (rule on_join_room_history(2) [OF h])
qed

theorem chat_log_bound_and_history_witness:
  "log_bounded live_room_state \<and>
   fmlookup (rooms live_room_state) (js ''r1'') \<noteq> None \<and>
   length (messages_of live_room_state (js ''r1'')) \<le> 100 \<and>
   messages_of
     (snd (append_all (js ''r1'') (spaced_calls (js ''s1'') (js ''Sam'') (js ''hi'') 10000 150)
             live_room_state)) (js ''r1'') =
     drop 50 (map (\<lambda>c. chat_entry_of (js ''s1'') (js ''Sam'') (js ''hi'') (snd (snd (snd c))))
                (spaced_calls (js ''s1'') (js ''Sam'') (js ''hi'') 10000 150)) \<and>
   length (messages_of
     (snd (append_all (js ''r1'') (spaced_calls (js ''s1'') (js ''Sam'') (js ''hi'') 10000 150)
             live_room_state)) (js ''r1'')) = 100 \<and>
   js ''r1'' \<noteq> [] \<and> js ''Vic'' \<noteq> [] \<and>
   has_streamer
     (snd (append_all (js ''r1'') (spaced_calls (js ''s1'') (js ''Sam'') (js ''hi'') 10000 150)
             live_room_state)) (js ''r1'') \<and>
   map_size (viewers_of
     (snd (append_all (js ''r1'') (spaced_calls (js ''s1'') (js ''Sam'') (js ''hi'') 10000 150)
             live_room_state)) (js ''r1'')) < 20 \<and>
   map_option length
     (history_sent (fst (on_join_room (js ''r1'') (js ''Vic'') (js ''v1'') 90000
        (snd (append_all (js ''r1'') (spaced_calls (js ''s1'') (js ''Sam'') (js ''hi'') 10000 150)
                live_room_state))))) = Some 100"
proof -
  let ?cs = "spaced_calls (js ''s1'') (js ''Sam'') (js ''hi'') 10000 150"
  let ?s = "snd (append_all (js ''r1'') ?cs live_room_state)"
  note t1 = chat_log_bound_and_history
              [of "[(js ''s1'', 1000, StartStream (js ''r1'') (js ''Sam''))]"
                  live_room_state "js ''r1''" ?cs "js ''Vic''" "js ''v1''" 90000]
  note t2 = chat_log_bound_and_history
              [of "[]" ?s "js ''r1''" "[]" "js ''Vic''" "js ''v1''" 90000]
  have c1: "log_bounded live_room_state"
    using t1 by (simp only: live_room_state_def)
  have c2: "fmlookup (rooms live_room_state) (js ''r1'') \<noteq> None"
    by (rule live_room_roles(5))
  have c3: "length (messages_of live_room_state (js ''r1'')) \<le> 100"
    by (simp add: live_room_roles)
  have ne: "sanitize (js ''hi'') \<noteq> []"
    by (simp add: sanitize_def js_trim_def js_substring0_def js_replace_all_def
          is_js_whitespace_def js_def)
  have t0: "lastMessageTime live_room_state (js ''s1'') + 500 \<le> 10000"
    by (simp add: live_room_roles)
  have acc: "accepted_entries (fst (append_all (js ''r1'') ?cs live_room_state)) =
               map (\<lambda>c. chat_entry_of (js ''s1'') (js ''Sam'') (js ''hi'') (snd (snd (snd c)))) ?cs"
    unfolding append_all_spaced [OF live_room_roles(5) ne t0, of "js ''Sam''" 150]
    by (rule accepted_entries_map)
  from t1 c2 c3
  have m: "messages_of ?s (js ''r1'') =
        drop (length (messages_of live_room_state (js ''r1'') @
                accepted_entries (fst (append_all (js ''r1'') ?cs live_room_state))) - 100)
             (messages_of live_room_state (js ''r1'') @
                accepted_entries (fst (append_all (js ''r1'') ?cs live_room_state)))"
    by blast
  have c4: "messages_of ?s (js ''r1'') =
     drop 50 (map (\<lambda>c. chat_entry_of (js ''s1'') (js ''Sam'') (js ''hi'') (snd (snd (snd c)))) ?cs)"
    unfolding m acc by (simp add: live_room_roles length_spaced_calls)
  have c5: "length (messages_of ?s (js ''r1'')) = 100"
    unfolding c4 by (simp add: length_spaced_calls)
  have c6: "js ''r1'' \<noteq> []" and c7: "js ''Vic'' \<noteq> []" by (simp_all add: js_def)
  have c8: "has_streamer ?s (js ''r1'')"
    by (simp add: append_all_keeps_roles live_room_roles)
  have c9: "map_size (viewers_of ?s (js ''r1'')) < 20"
    by (simp add: append_all_keeps_roles live_room_roles map_size_empty)
  from t2 c6 c7 c8 c9
  have "history_sent (fst (on_join_room (js ''r1'') (js ''Vic'') (js ''v1'') 90000 ?s)) =
          Some (messages_of ?s (js ''r1''))"
    by blast
  then have c10: "map_option length
     (history_sent (fst (on_join_room (js ''r1'') (js ''Vic'') (js ''v1'') 90000 ?s))) = Some 100"
    by (simp add: c5)
  show ?thesis
    by (intro conjI) (fact c1 c2 c3 c4 c5 c6 c7 c8 c9 c10)+
qed

subsection \<open>Joining a room without a streamer\<close>





















end
